theory Spec2Isabelle
  imports Main "HOL-Library.Word"
begin

section \<open>Conventions of the embedding\<close>

text \<open>
  The development embeds package \<^verbatim>\<open>data\<close> of the RFC 7951 encoding library: the
  \<^verbatim>\<open>Value\<close> cell with its constructors, accessors and dispatch, the persistent
  \<^verbatim>\<open>Object\<close> and \<^verbatim>\<open>Array\<close> containers, instance identifiers, and the \<^verbatim>\<open>Tree\<close> with
  its diff and edit operations.

  \<^item> A Go \<^verbatim>\<open>string\<close> is a byte sequence and is modelled by \<^typ>\<open>string\<close>.
  \<^item> A \<^verbatim>\<open>panic\<close> and a returned \<^verbatim>\<open>error\<close> are the left summand of a sum type; the
    payload is the message.
  \<^item> A pointer that may be \<^verbatim>\<open>nil\<close> is an \<^typ>\<open>'a option\<close>.
  \<^item> Fixed-width integers are machine words; Go's \<^verbatim>\<open>int\<close> and \<^verbatim>\<open>uint\<close> are taken
    at 64 bits.
\<close>

type_synonym error = string

section \<open>Standard-library functions used by the package\<close>

text \<open>\<^verbatim>\<open>strconv.FormatUint(n, 10)\<close> and \<^verbatim>\<open>strconv.FormatInt(i, 10)\<close>.\<close>

definition digit_char :: "nat \<Rightarrow> char" where
  "digit_char d = char_of (48 + d)"

fun FormatUint :: "nat \<Rightarrow> string" where
  "FormatUint n = (if n < 10 then [digit_char n] else FormatUint (n div 10) @ [digit_char (n mod 10)])"

declare FormatUint.simps [simp del]

definition FormatInt :: "int \<Rightarrow> string" where
  "FormatInt i = (if i < 0 then CHR ''-'' # FormatUint (nat (- i)) else FormatUint (nat i))"

definition FormatBool :: "bool \<Rightarrow> string" where
  "FormatBool b = (if b then ''true'' else ''false'')"

text \<open>
  \<^verbatim>\<open>strconv.ParseUint(s, 10, bits)\<close> and \<^verbatim>\<open>strconv.ParseInt(s, 10, bits)\<close>: base 10
  admits decimal digits only (no underscores), \<^verbatim>\<open>ParseUint\<close> admits no sign, and a value
  outside the range of the bit size is an error.
\<close>

definition isDigit :: "char \<Rightarrow> bool" where
  "isDigit c = (48 \<le> (of_char c :: nat) \<and> (of_char c :: nat) \<le> 57)"

definition digits_val :: "string \<Rightarrow> nat" where
  "digits_val s = foldl (\<lambda>acc c. 10 * acc + ((of_char c :: nat) - 48)) 0 s"

definition ParseUint :: "string \<Rightarrow> nat \<Rightarrow> nat option" where
  "ParseUint s bits =
     (if s = [] \<or> \<not> list_all isDigit s then None
      else if digits_val s < 2 ^ bits then Some (digits_val s) else None)"

definition ParseInt :: "string \<Rightarrow> nat \<Rightarrow> int option" where
  "ParseInt s bits =
     (if s = [] then None
      else
        let neg = (hd s = CHR ''-'');
            s' = (if hd s = CHR ''+'' \<or> hd s = CHR ''-'' then tl s else s)
        in (case ParseUint s' bits of
              None \<Rightarrow> None
            | Some un \<Rightarrow>
                if \<not> neg \<and> un \<ge> 2 ^ (bits - 1) then None
                else if neg \<and> un > 2 ^ (bits - 1) then None
                else Some (if neg then - int un else int un)))"

subsection \<open>Runes\<close>

text \<open>
  \<^verbatim>\<open>utf8.DecodeRuneInString\<close>: the rune at the head of a string and the number of bytes
  of its encoding; an invalid or truncated encoding is \<^verbatim>\<open>RuneError\<close> (\<open>U+FFFD\<close>) of
  width 1.
\<close>

definition RuneError :: nat where
  "RuneError = 65533"

definition byte :: "char \<Rightarrow> nat" where
  "byte c = of_char c"

definition in_range :: "char \<Rightarrow> nat \<Rightarrow> nat \<Rightarrow> bool" where
  "in_range c lo hi = (lo \<le> byte c \<and> byte c \<le> hi)"

text \<open>
  The encodings of two, three and four bytes, with the accept ranges of the second byte
  that exclude overlong forms, surrogates and runes above \<open>U+10FFFF\<close>.
\<close>

definition decode2 :: "nat \<Rightarrow> string \<Rightarrow> nat \<times> nat" where
  "decode2 x rest =
     (case rest of
        b1 # r1 \<Rightarrow>
          if in_range b1 128 191 then ((x - 192) * 64 + (byte b1 - 128), 2)
          else (RuneError, 1)
      | [] \<Rightarrow> (RuneError, 1))"

definition decode3 :: "nat \<Rightarrow> string \<Rightarrow> nat \<times> nat" where
  "decode3 x rest =
     (case rest of
        b1 # b2 # r2 \<Rightarrow>
          if in_range b1 (if x = 224 then 160 else 128) (if x = 237 then 159 else 191)
             \<and> in_range b2 128 191
          then ((x - 224) * 4096 + (byte b1 - 128) * 64 + (byte b2 - 128), 3)
          else (RuneError, 1)
      | _ \<Rightarrow> (RuneError, 1))"

definition decode4 :: "nat \<Rightarrow> string \<Rightarrow> nat \<times> nat" where
  "decode4 x rest =
     (case rest of
        b1 # b2 # b3 # r3 \<Rightarrow>
          if in_range b1 (if x = 240 then 144 else 128) (if x = 244 then 143 else 191)
             \<and> in_range b2 128 191 \<and> in_range b3 128 191
          then ((x - 240) * 262144 + (byte b1 - 128) * 4096 + (byte b2 - 128) * 64
                + (byte b3 - 128), 4)
          else (RuneError, 1)
      | _ \<Rightarrow> (RuneError, 1))"

definition DecodeRune :: "string \<Rightarrow> nat \<times> nat" where
  "DecodeRune s =
     (case s of
        [] \<Rightarrow> (RuneError, 0)
      | b0 # rest \<Rightarrow>
          if byte b0 < 128 then (byte b0, 1)
          else if 194 \<le> byte b0 \<and> byte b0 \<le> 223 then decode2 (byte b0) rest
          else if 224 \<le> byte b0 \<and> byte b0 \<le> 239 then decode3 (byte b0) rest
          else if 240 \<le> byte b0 \<and> byte b0 \<le> 244 then decode4 (byte b0) rest
          else (RuneError, 1))"

lemma decode2_width: "0 < snd (decode2 x rest)"
  by (simp add: decode2_def split: list.splits)

lemma decode3_width: "0 < snd (decode3 x rest)"
  by (simp add: decode3_def split: list.splits)

lemma decode4_width: "0 < snd (decode4 x rest)"
  by (simp add: decode4_def split: list.splits)

lemma DecodeRune_width: "s \<noteq> [] \<Longrightarrow> 1 \<le> snd (DecodeRune s)"
  by (cases s) (simp_all add: DecodeRune_def Suc_le_eq decode2_width decode3_width decode4_width)

text \<open>The runes that \<^verbatim>\<open>for i, r := range str\<close> yields, in order.\<close>

function runes :: "string \<Rightarrow> nat list" where
  "runes [] = []"
| "runes (b # bs) = fst (DecodeRune (b # bs)) # runes (drop (snd (DecodeRune (b # bs))) (b # bs))"
  by pat_completeness auto
termination
proof (relation "measure length")
  fix b bs
  have "1 \<le> snd (DecodeRune (b # bs))" by (rule DecodeRune_width) simp
  then show "(drop (snd (DecodeRune (b # bs))) (b # bs), b # bs) \<in> measure length"
    by simp
qed simp

declare runes.simps(2) [simp del]

text \<open>
  \<^verbatim>\<open>unicode.IsLetter\<close> and \<^verbatim>\<open>unicode.IsDigit\<close>. Up to \<open>U+00FF\<close> both are decided by
  the Latin-1 property table of the standard library, written out here; above, they
  consult the Unicode range tables, which are a parameter.
\<close>

record unicode =
  letter_above_latin1 :: "nat \<Rightarrow> bool"
  digit_above_latin1 :: "nat \<Rightarrow> bool"
  print_above_latin1 :: "nat \<Rightarrow> bool"

definition IsLetter :: "unicode \<Rightarrow> nat \<Rightarrow> bool" where
  "IsLetter U r =
     (if r \<le> 255
      then (65 \<le> r \<and> r \<le> 90) \<or> (97 \<le> r \<and> r \<le> 122) \<or> r = 170 \<or> r = 181 \<or> r = 186
           \<or> (192 \<le> r \<and> r \<le> 214) \<or> (216 \<le> r \<and> r \<le> 246) \<or> (248 \<le> r \<and> r \<le> 255)
      else letter_above_latin1 U r)"

definition IsDigit :: "unicode \<Rightarrow> nat \<Rightarrow> bool" where
  "IsDigit U r = (if r \<le> 255 then 48 \<le> r \<and> r \<le> 57 else digit_above_latin1 U r)"

text \<open>
  \<^verbatim>\<open>strconv.IsPrint\<close>: up to \<open>U+00FF\<close> the printable runes are those from the space to
  \<open>~\<close> and from \<open>U+00A1\<close> on without the soft hyphen \<open>U+00AD\<close>; above, the tables of the
  standard library decide, which are a parameter.
\<close>

definition IsPrint :: "unicode \<Rightarrow> nat \<Rightarrow> bool" where
  "IsPrint U r =
     (if r \<le> 255 then (32 \<le> r \<and> r \<le> 126) \<or> (161 \<le> r \<and> r \<noteq> 173)
      else print_above_latin1 U r)"

text \<open>\<^verbatim>\<open>utf8.ValidRune\<close> and \<^verbatim>\<open>utf8.AppendRune\<close>.\<close>

definition ValidRune :: "nat \<Rightarrow> bool" where
  "ValidRune r = (r < 55296 \<or> (57343 < r \<and> r \<le> 1114111))"

definition EncodeRune :: "nat \<Rightarrow> string" where
  "EncodeRune r =
     (if r \<le> 127 then [char_of r]
      else if r \<le> 2047 then [char_of (192 + r div 64), char_of (128 + r mod 64)]
      else if \<not> ValidRune r then [CHR 0xEF, CHR 0xBF, CHR 0xBD]
      else if r \<le> 65535
        then [char_of (224 + r div 4096), char_of (128 + r div 64 mod 64), char_of (128 + r mod 64)]
      else [char_of (240 + r div 262144), char_of (128 + r div 4096 mod 64),
            char_of (128 + r div 64 mod 64), char_of (128 + r mod 64)])"

text \<open>
  \<^verbatim>\<open>strconv.Quote(s)\<close>, that is \<^verbatim>\<open>appendQuotedWith\<close> and \<^verbatim>\<open>appendEscapedRune\<close> for the
  quote \<^verbatim>\<open>"\<close>, with \<^verbatim>\<open>ASCIIonly\<close> and \<^verbatim>\<open>graphicOnly\<close> false. \<open>firstRune\<close> is the rune
  that the loop reads at the head of the rest of the string, with its width.
\<close>

definition hex_digit :: "nat \<Rightarrow> char" where
  "hex_digit d = (if d < 10 then char_of (48 + d) else char_of (87 + d))"

definition hex4 :: "nat \<Rightarrow> string" where
  "hex4 r = [hex_digit (r div 4096 mod 16), hex_digit (r div 256 mod 16),
             hex_digit (r div 16 mod 16), hex_digit (r mod 16)]"

definition hex8 :: "nat \<Rightarrow> string" where
  "hex8 r = hex4 (r div 65536 mod 65536) @ hex4 (r mod 65536)"

definition appendEscapedRune :: "unicode \<Rightarrow> nat \<Rightarrow> string" where
  "appendEscapedRune U r =
     (if r = 34 \<or> r = 92 then [CHR 0x5C, char_of r]
      else if IsPrint U r then EncodeRune r
      else if r = 7 then [CHR 0x5C, CHR ''a'']
      else if r = 8 then [CHR 0x5C, CHR ''b'']
      else if r = 12 then [CHR 0x5C, CHR ''f'']
      else if r = 10 then [CHR 0x5C, CHR ''n'']
      else if r = 13 then [CHR 0x5C, CHR ''r'']
      else if r = 9 then [CHR 0x5C, CHR ''t'']
      else if r = 11 then [CHR 0x5C, CHR ''v'']
      else if r < 32 \<or> r = 127
        then [CHR 0x5C, CHR ''x'', hex_digit (r div 16 mod 16), hex_digit (r mod 16)]
      else if \<not> ValidRune r then [CHR 0x5C, CHR ''u''] @ hex4 65533
      else if r < 65536 then [CHR 0x5C, CHR ''u''] @ hex4 r
      else [CHR 0x5C, CHR ''U''] @ hex8 r)"

definition firstRune :: "string \<Rightarrow> nat \<times> nat" where
  "firstRune s = (if 128 \<le> byte (hd s) then DecodeRune s else (byte (hd s), 1))"

lemma firstRune_width: "s \<noteq> [] \<Longrightarrow> 0 < snd (firstRune s)"
  using DecodeRune_width [of s] by (simp add: firstRune_def)

function Quote_loop :: "unicode \<Rightarrow> string \<Rightarrow> string" where
  "Quote_loop U [] = []"
| "Quote_loop U (b # bs) =
     (if snd (firstRune (b # bs)) = 1 \<and> fst (firstRune (b # bs)) = RuneError
      then [CHR 0x5C, CHR ''x'', hex_digit (byte b div 16), hex_digit (byte b mod 16)]
      else appendEscapedRune U (fst (firstRune (b # bs))))
     @ Quote_loop U (drop (snd (firstRune (b # bs))) (b # bs))"
  by pat_completeness auto
termination
proof (relation "measure (\<lambda>(U, s). length s)")
  fix U :: unicode and b bs
  have "0 < snd (firstRune (b # bs))" by (rule firstRune_width) simp
  then show "((U, drop (snd (firstRune (b # bs))) (b # bs)), U, b # bs)
      \<in> measure (\<lambda>(U, s). length s)"
    by simp
qed simp

declare Quote_loop.simps(2) [simp del]

definition Quote :: "unicode \<Rightarrow> string \<Rightarrow> string" where
  "Quote U s = [CHR 0x22] @ Quote_loop U s @ [CHR 0x22]"

section \<open>Data model\<close>

text \<open>
  \<^verbatim>\<open>nodeID\<close>, \<^verbatim>\<open>predicates\<close>, \<^verbatim>\<open>predicate\<close>, \<^verbatim>\<open>posPredicate\<close>, \<^verbatim>\<open>exprPredicate\<close> and
  \<^verbatim>\<open>InstanceID\<close>. The field \<^verbatim>\<open>predicates *predicates\<close> is \<^term>\<open>None\<close> when the pointer is
  \<^verbatim>\<open>nil\<close> and carries the \<^verbatim>\<open>preds\<close> slice otherwise.
\<close>

datatype nodeID =
  NodeID (id_prefix: string) (id_identifier: string) (prefixInferred: bool)
    (id_predicates: "predicate list option")
and predicate =
    PosPredicate (pos: "64 word")
  | ExprPredicate (pred_nodeID: nodeID) (pred_value: string)

datatype InstanceID = InstanceID (ids: "nodeID list")

text \<open>
  A \<^verbatim>\<open>float64\<close> is identified by the text \<^verbatim>\<open>strconv.FormatFloat(d, 'f', -1, 64)\<close>
  prints for it (the shortest decimal that reads back as the same number), so that
  formatting needs no floating-point arithmetic. Parsing is a parameter of the functions
  that call \<^verbatim>\<open>strconv.ParseFloat\<close>.
\<close>

datatype float64 = Float64 (FormatFloat: string)

text \<open>
  \<^verbatim>\<open>Value{data}\<close>: one constructor per dynamic type of \<^verbatim>\<open>data\<close>. \<^verbatim>\<open>*Object\<close> and \<^verbatim>\<open>*Array\<close>
  carry their \<^verbatim>\<open>module\<close> and their \<^verbatim>\<open>store\<close>. The store of an object is the list of the
  entries of the hash map, in iteration order, with distinct keys. The store of an array
  is the vector of its elements, each an \<^verbatim>\<open>interface{}\<close>: \<^term>\<open>Some v\<close> for a \<^verbatim>\<open>*Value\<close>
  and \<^term>\<open>None\<close> for the untyped \<^verbatim>\<open>nil\<close>.
\<close>

datatype Value =
    VNull
  | VEmpty
  | VBool bool
  | VI32 "32 word"
  | VU32 "32 word"
  | VI64 "64 word"
  | VU64 "64 word"
  | VF64 float64
  | VString string
  | VInstanceID InstanceID
  | VObject string "(string \<times> Value) list"
  | VArray string "Value option list"

text \<open>The values of \<^verbatim>\<open>reflect.Type\<close> that the package compares.\<close>

datatype gotype =
    interfaceType | valType | stringType
  | int32Type | uint32Type | int64Type | uint64Type | float64Type
  | boolType | goStringType | objectType | arrayType | instanceIDType | emptyType
  | otherType

section \<open>Instance identifiers as strings\<close>

fun nodeID_String :: "nodeID \<Rightarrow> string"
  and predicates_String :: "predicate list \<Rightarrow> string"
  and predicate_String :: "predicate \<Rightarrow> string"
where
  "nodeID_String (NodeID p i inferred ps) =
     (if p \<noteq> [] \<and> \<not> inferred
      then p @ '':'' @ i @ (case ps of None \<Rightarrow> [] | Some l \<Rightarrow> predicates_String l)
      else i @ (case ps of None \<Rightarrow> [] | Some l \<Rightarrow> predicates_String l))"
| "predicates_String [] = []"
| "predicates_String (pred # l) = predicate_String pred @ predicates_String l"
| "predicate_String (PosPredicate n) = ''['' @ FormatUint (unat n) @ '']''"
| "predicate_String (ExprPredicate n v) =
     ''['' @ (nodeID_String n @ ''='' @ [CHR 0x27] @ v @ [CHR 0x27]) @ '']''"

fun Join :: "string list \<Rightarrow> string \<Rightarrow> string" where
  "Join [] sep = []"
| "Join [s] sep = s"
| "Join (s # ss) sep = s @ sep @ Join ss sep"

definition InstanceID_String :: "InstanceID \<Rightarrow> string" where
  "InstanceID_String i = ''/'' @ Join (map nodeID_String (ids i)) ''/''"

section \<open>Values\<close>

subsection \<open>Equality\<close>

text \<open>
  \<^verbatim>\<open>equal\<close> is \<^verbatim>\<open>dyn.Equal\<close>, which calls the \<^verbatim>\<open>Equal\<close> method of its first argument:
  \<^verbatim>\<open>Object.Equal\<close> and \<^verbatim>\<open>Array.Equal\<close> compare module, length and stores,
  \<^verbatim>\<open>InstanceID.Equal\<close> compares the canonical strings, and any other data is compared
  with \<^verbatim>\<open>==\<close>, which distinguishes the dynamic types.
\<close>

function equal :: "Value \<Rightarrow> Value \<Rightarrow> bool" where
  "equal v1 v2 =
     (case (v1, v2) of
        (VObject m s, VObject m' s') \<Rightarrow>
           m' = m \<and> length s' = length s \<and>
           list_all (\<lambda>(k, v). case map_of s' k of None \<Rightarrow> False | Some v' \<Rightarrow> equal v v') s
      | (VArray m s, VArray m' s') \<Rightarrow>
           m' = m \<and> length s' = length s \<and>
           list_all (\<lambda>(x, y). case (x, y) of
                        (None, None) \<Rightarrow> True
                      | (Some v, Some v') \<Rightarrow> equal v v'
                      | _ \<Rightarrow> False) (zip s s')
      | (VInstanceID i, VInstanceID i') \<Rightarrow> InstanceID_String i' = InstanceID_String i
      | _ \<Rightarrow> v1 = v2)"
  by pat_completeness auto

lemma size_store_entry:
  "(k, v) \<in> set s \<Longrightarrow> size v < Suc (size_list (size_prod (\<lambda>_. 0) size) s)"
  by (induction s) auto

lemma size_slot_entry:
  "Some v \<in> set s \<Longrightarrow> size v < Suc (size_list (size_option size) s)"
  by (induction s) auto

lemma size_slot_zip:
  "(Some v, y) \<in> set (zip s s') \<Longrightarrow> size v < Suc (size_list (size_option size) s)"
  by (auto dest: set_zip_leftD size_slot_entry)

termination equal
  by (relation "measure (\<lambda>(v1, v2). size v1)")
     (auto dest: size_store_entry size_slot_zip)

declare equal.simps [simp del]

subsection \<open>Construction\<close>

text \<open>
  The argument of \<^verbatim>\<open>ValueNew\<close> is an \<^verbatim>\<open>interface{}\<close>; \<open>native\<close> lists the dynamic
  types the type switch of \<^verbatim>\<open>valueNew\<close> names, and \<open>NOther\<close> stands for a value of any
  other type. Maps, slices and \<^verbatim>\<open>float32\<close> are built through \<^verbatim>\<open>ObjectFrom\<close>,
  \<^verbatim>\<open>ArrayFrom\<close> and a floating-point conversion and are not part of this type.
\<close>

datatype native =
    NNil
  | NValue "Value option"
  | NObject string "(string \<times> Value) list"
  | NArray string "Value option list"
  | NInstanceID InstanceID
  | NEmpty
  | NUint "64 word" | NUint8 "8 word" | NUint16 "16 word" | NUint32 "32 word"
  | NUint64 "64 word"
  | NInt "64 word" | NInt8 "8 word" | NInt16 "16 word" | NInt32 "32 word"
  | NInt64 "64 word"
  | NFloat64 float64
  | NBool bool
  | NString string
  | NOther

fun typeOf :: "Value \<Rightarrow> gotype option" where
  "typeOf VNull = None"
| "typeOf VEmpty = Some emptyType"
| "typeOf (VBool b) = Some boolType"
| "typeOf (VI32 w) = Some int32Type"
| "typeOf (VU32 w) = Some uint32Type"
| "typeOf (VI64 w) = Some int64Type"
| "typeOf (VU64 w) = Some uint64Type"
| "typeOf (VF64 f) = Some float64Type"
| "typeOf (VString s) = Some goStringType"
| "typeOf (VInstanceID i) = Some instanceIDType"
| "typeOf (VObject m s) = Some objectType"
| "typeOf (VArray m s) = Some arrayType"

text \<open>
  \<^verbatim>\<open>canConvertNumeric(from, to, v)\<close>. The type assertions \<^verbatim>\<open>v.(int32)\<close> etc. hold at
  every call, where \<^verbatim>\<open>from\<close> is the dynamic type of \<^verbatim>\<open>v\<close>.
\<close>

definition canConvertNumeric :: "gotype option \<Rightarrow> gotype \<Rightarrow> Value \<Rightarrow> bool" where
  "canConvertNumeric from to v =
     (if from = Some to then True
      else (case (from, v) of
              (Some int32Type, VI32 w) \<Rightarrow> to = uint32Type \<and> 0 \<le> sint w
            | (Some uint32Type, VU32 w) \<Rightarrow> to = int32Type \<and> w \<le> 2 ^ 31 - 1
            | (Some int64Type, VI64 w) \<Rightarrow> to = uint64Type \<and> 0 \<le> sint w
            | (Some uint64Type, VU64 w) \<Rightarrow> to = int64Type \<and> w \<le> 2 ^ 63 - 1
            | _ \<Rightarrow> False))"

text \<open>
  \<^verbatim>\<open>convertNumeric(from, to)\<close> at the conversions \<^verbatim>\<open>canConvertNumeric\<close> admits: the
  bits are kept and the type changes.
\<close>

definition convertNumeric :: "Value \<Rightarrow> gotype \<Rightarrow> Value" where
  "convertNumeric v to =
     (case v of
        VI32 w \<Rightarrow> if to = uint32Type then VU32 w else v
      | VU32 w \<Rightarrow> if to = int32Type then VI32 w else v
      | VI64 w \<Rightarrow> if to = uint64Type then VU64 w else v
      | VU64 w \<Rightarrow> if to = int64Type then VI64 w else v
      | _ \<Rightarrow> v)"

definition inferInt32Type :: "32 word \<Rightarrow> Value" where
  "inferInt32Type v =
     (if canConvertNumeric (Some int32Type) uint32Type (VI32 v) then VU32 v else VI32 v)"

definition inferInt64Type :: "64 word \<Rightarrow> Value" where
  "inferInt64Type v =
     (if canConvertNumeric (Some int64Type) uint64Type (VI64 v) then VU64 v else VI64 v)"

text \<open>
  \<^verbatim>\<open>valueNew\<close>. \<^verbatim>\<open>convertToUint32\<close> of an unsigned integer is \<^term>\<open>ucast\<close> and
  \<^verbatim>\<open>convertToInt32\<close> of a signed integer is \<^term>\<open>scast\<close>. The result is the pointer
  \<^verbatim>\<open>*Value\<close>, which is the argument itself when that is a \<^verbatim>\<open>*Value\<close>.
\<close>

fun ValueNew :: "native \<Rightarrow> error + Value option" where
  "ValueNew NNil = Inr (Some VNull)"
| "ValueNew (NValue d) = Inr d"
| "ValueNew (NObject m s) = Inr (Some (VObject m s))"
| "ValueNew (NArray m s) = Inr (Some (VArray m s))"
| "ValueNew (NInstanceID i) = Inr (Some (VInstanceID i))"
| "ValueNew NEmpty = Inr (Some VEmpty)"
| "ValueNew (NUint d) = Inr (Some (VU32 (ucast d)))"
| "ValueNew (NUint8 d) = Inr (Some (VU32 (ucast d)))"
| "ValueNew (NUint16 d) = Inr (Some (VU32 (ucast d)))"
| "ValueNew (NUint32 d) = Inr (Some (VU32 (ucast d)))"
| "ValueNew (NUint64 d) = Inr (Some (VU64 d))"
| "ValueNew (NInt d) = Inr (Some (inferInt32Type (scast d)))"
| "ValueNew (NInt8 d) = Inr (Some (inferInt32Type (scast d)))"
| "ValueNew (NInt16 d) = Inr (Some (inferInt32Type (scast d)))"
| "ValueNew (NInt32 d) = Inr (Some (inferInt32Type (scast d)))"
| "ValueNew (NInt64 d) = Inr (Some (inferInt64Type d))"
| "ValueNew (NFloat64 d) = Inr (Some (VF64 d))"
| "ValueNew (NBool d) = Inr (Some (VBool d))"
| "ValueNew (NString d) = Inr (Some (VString d))"
| "ValueNew NOther = Inl ''cannot create value, invalid type''"

subsection \<open>The RFC 7951 string form\<close>

text \<open>
  \<^verbatim>\<open>Value.RFC7951String\<close>. Of the data types only \<^verbatim>\<open>empty\<close> and \<^verbatim>\<open>*InstanceID\<close>
  implement \<^verbatim>\<open>RFC7951String() string\<close>; a string is quoted by \<^verbatim>\<open>strconv.Quote\<close> and
  stripped of the two quotes; an object or an array reaches the default case of the type
  switch, which panics.
\<close>

fun RFC7951String :: "unicode \<Rightarrow> Value \<Rightarrow> error + string" where
  "RFC7951String U VNull = Inr ''null''"
| "RFC7951String U VEmpty = Inr ''[null]''"
| "RFC7951String U (VInstanceID i) = Inr (InstanceID_String i)"
| "RFC7951String U (VU32 d) = Inr (FormatUint (unat d))"
| "RFC7951String U (VU64 d) = Inr (FormatUint (unat d))"
| "RFC7951String U (VI32 d) = Inr (FormatInt (sint d))"
| "RFC7951String U (VI64 d) = Inr (FormatInt (sint d))"
| "RFC7951String U (VF64 d) = Inr (FormatFloat d)"
| "RFC7951String U (VBool d) = Inr (FormatBool d)"
| "RFC7951String U (VString d) =
     Inr (let str = Quote U d in
          if length str < 2 then str else take (length str - 2) (drop 1 str))"
| "RFC7951String U (VObject m s) = Inl ''cannot convert value to string, invalid type''"
| "RFC7951String U (VArray m s) = Inl ''cannot convert value to string, invalid type''"

subsection \<open>Boolean accessors\<close>

definition Empty :: Value where
  "Empty = VEmpty"

definition IsEmpty :: "Value \<Rightarrow> bool" where
  "IsEmpty val = equal val Empty"

definition IsNull :: "Value \<Rightarrow> bool" where
  "IsNull val = (val = VNull)"

text \<open>\<^verbatim>\<open>AsBoolean\<close>: the type assertion \<^verbatim>\<open>val.data.(bool)\<close> panics on other data.\<close>

definition AsBoolean :: "Value \<Rightarrow> error + bool" where
  "AsBoolean val =
     (if IsEmpty val then Inr True
      else (case val of VBool b \<Rightarrow> Inr b
            | _ \<Rightarrow> Inl ''interface conversion: interface {} is not bool''))"

definition IsBoolean :: "Value \<Rightarrow> bool" where
  "IsBoolean val = ((case val of VBool b \<Rightarrow> True | _ \<Rightarrow> False) \<or> IsEmpty val)"

text \<open>\<^verbatim>\<open>ToBoolean(defaultVal ...bool)\<close>: the variadic argument is a list.\<close>

definition ToBoolean :: "Value \<Rightarrow> bool list \<Rightarrow> bool" where
  "ToBoolean val defaultVal =
     (if IsEmpty val then True
      else (case val of VBool b \<Rightarrow> b
            | _ \<Rightarrow> if length defaultVal \<noteq> 0 then defaultVal ! 0 else False))"

subsection \<open>Dispatch\<close>

text \<open>
  A handler passed to \<^verbatim>\<open>Perform\<close> is a Go function value. The constructor gives the
  type of its single parameter; \<open>HOther\<close> is a function of one parameter of a type no
  \<^verbatim>\<open>Value\<close> holds, and \<open>HNotUnary\<close> a function whose \<^verbatim>\<open>NumIn()\<close> is not 1.
\<close>

datatype 'r handler =
    HInterface "Value \<Rightarrow> 'r"
  | HValue "Value \<Rightarrow> 'r"
  | HString "string \<Rightarrow> 'r"
  | HObject "string \<Rightarrow> (string \<times> Value) list \<Rightarrow> 'r"
  | HArray "string \<Rightarrow> Value option list \<Rightarrow> 'r"
  | HInstanceID "InstanceID \<Rightarrow> 'r"
  | HEmpty "unit \<Rightarrow> 'r"
  | HInt32 "32 word \<Rightarrow> 'r"
  | HUint32 "32 word \<Rightarrow> 'r"
  | HInt64 "64 word \<Rightarrow> 'r"
  | HUint64 "64 word \<Rightarrow> 'r"
  | HFloat64 "float64 \<Rightarrow> 'r"
  | HBool "bool \<Rightarrow> 'r"
  | HGoString "string \<Rightarrow> 'r"
  | HOther
  | HNotUnary

text \<open>\<^verbatim>\<open>fnty.In(0)\<close>, defined when \<^verbatim>\<open>fnty.NumIn() == 1\<close>.\<close>

fun inputType :: "'r handler \<Rightarrow> gotype option" where
  "inputType (HInterface f) = Some interfaceType"
| "inputType (HValue f) = Some valType"
| "inputType (HString f) = Some stringType"
| "inputType (HObject f) = Some objectType"
| "inputType (HArray f) = Some arrayType"
| "inputType (HInstanceID f) = Some instanceIDType"
| "inputType (HEmpty f) = Some emptyType"
| "inputType (HInt32 f) = Some int32Type"
| "inputType (HUint32 f) = Some uint32Type"
| "inputType (HInt64 f) = Some int64Type"
| "inputType (HUint64 f) = Some uint64Type"
| "inputType (HFloat64 f) = Some float64Type"
| "inputType (HBool f) = Some boolType"
| "inputType (HGoString f) = Some goStringType"
| "inputType HOther = Some otherType"
| "inputType HNotUnary = None"

text \<open>
  The argument \<^verbatim>\<open>arg\<close> handed to \<^verbatim>\<open>dyn.Apply\<close>: the data of the value (possibly
  converted), the value cell itself, or the \<^verbatim>\<open>String\<close> form.
\<close>

datatype arg = ArgData Value | ArgValue Value | ArgString string

text \<open>\<^verbatim>\<open>dyn.Apply(action, arg)\<close>; applying a function to an argument of another type panics.\<close>

definition wrongArgument :: error where
  "wrongArgument = ''reflect: Call using wrong argument type''"

definition Apply :: "'r handler \<Rightarrow> arg \<Rightarrow> error + 'r" where
  "Apply action a =
     (case action of
        HInterface f \<Rightarrow> (case a of ArgData v \<Rightarrow> Inr (f v) | _ \<Rightarrow> Inl wrongArgument)
      | HValue f \<Rightarrow> (case a of ArgValue v \<Rightarrow> Inr (f v) | _ \<Rightarrow> Inl wrongArgument)
      | HString f \<Rightarrow> (case a of ArgString s \<Rightarrow> Inr (f s) | _ \<Rightarrow> Inl wrongArgument)
      | HObject f \<Rightarrow> (case a of ArgData (VObject m s) \<Rightarrow> Inr (f m s) | _ \<Rightarrow> Inl wrongArgument)
      | HArray f \<Rightarrow> (case a of ArgData (VArray m s) \<Rightarrow> Inr (f m s) | _ \<Rightarrow> Inl wrongArgument)
      | HInstanceID f \<Rightarrow> (case a of ArgData (VInstanceID i) \<Rightarrow> Inr (f i) | _ \<Rightarrow> Inl wrongArgument)
      | HEmpty f \<Rightarrow> (case a of ArgData VEmpty \<Rightarrow> Inr (f ()) | _ \<Rightarrow> Inl wrongArgument)
      | HInt32 f \<Rightarrow> (case a of ArgData (VI32 w) \<Rightarrow> Inr (f w) | _ \<Rightarrow> Inl wrongArgument)
      | HUint32 f \<Rightarrow> (case a of ArgData (VU32 w) \<Rightarrow> Inr (f w) | _ \<Rightarrow> Inl wrongArgument)
      | HInt64 f \<Rightarrow> (case a of ArgData (VI64 w) \<Rightarrow> Inr (f w) | _ \<Rightarrow> Inl wrongArgument)
      | HUint64 f \<Rightarrow> (case a of ArgData (VU64 w) \<Rightarrow> Inr (f w) | _ \<Rightarrow> Inl wrongArgument)
      | HFloat64 f \<Rightarrow> (case a of ArgData (VF64 d) \<Rightarrow> Inr (f d) | _ \<Rightarrow> Inl wrongArgument)
      | HBool f \<Rightarrow> (case a of ArgData (VBool b) \<Rightarrow> Inr (f b) | _ \<Rightarrow> Inl wrongArgument)
      | HGoString f \<Rightarrow> (case a of ArgData (VString s) \<Rightarrow> Inr (f s) | _ \<Rightarrow> Inl wrongArgument)
      | HOther \<Rightarrow> Inl wrongArgument
      | HNotUnary \<Rightarrow> Inl wrongArgument)"

text \<open>
  \<^verbatim>\<open>vty.AssignableTo(inputType)\<close> for the dynamic type \<^verbatim>\<open>vty\<close> of the data: the types
  are identical, or the input type is the empty interface.
\<close>

definition AssignableTo :: "gotype \<Rightarrow> gotype \<Rightarrow> bool" where
  "AssignableTo vty t = (t = vty \<or> t = interfaceType)"

text \<open>
  One iteration of the loop of \<^verbatim>\<open>Perform\<close> with \<^verbatim>\<open>action == nil\<close>: the result is the
  new \<^verbatim>\<open>(action, arg)\<close>, \<^term>\<open>None\<close> when \<^verbatim>\<open>action\<close> stays \<^verbatim>\<open>nil\<close>.
\<close>

definition Perform_step ::
  "unicode \<Rightarrow> Value \<Rightarrow> 'r handler \<Rightarrow> error + ('r handler \<times> arg) option"
where
  "Perform_step U val fn =
     (case inputType fn of
        None \<Rightarrow> Inr None
      | Some inT \<Rightarrow>
          (case typeOf val of
             None \<Rightarrow> if inT = interfaceType then Inr (Some (fn, ArgData val)) else Inr None
           | Some vty \<Rightarrow>
               if inT = valType then Inr (Some (fn, ArgValue val))
               else if inT = stringType then
                 (case RFC7951String U val of
                    Inl e \<Rightarrow> Inl e
                  | Inr s \<Rightarrow> Inr (Some (fn, ArgString s)))
               else if AssignableTo vty inT then Inr (Some (fn, ArgData val))
               else if canConvertNumeric (Some vty) inT val
                 then Inr (Some (fn, ArgData (convertNumeric val inT)))
               else Inr None))"

fun Perform_loop ::
  "unicode \<Rightarrow> Value \<Rightarrow> 'r handler list \<Rightarrow> error + ('r handler \<times> arg) option"
where
  "Perform_loop U val [] = Inr None"
| "Perform_loop U val (fn # fns) =
     (case Perform_step U val fn of
        Inl e \<Rightarrow> Inl e
      | Inr (Some a) \<Rightarrow> Inr (Some a)
      | Inr None \<Rightarrow> Perform_loop U val fns)"

text \<open>
  \<^verbatim>\<open>(val *Value) Perform(fns ...interface{}) interface{}\<close>. The result \<^term>\<open>Inr None\<close>
  is the \<^verbatim>\<open>nil\<close> interface.
\<close>

definition Perform :: "unicode \<Rightarrow> Value option \<Rightarrow> 'r handler list \<Rightarrow> error + 'r option" where
  "Perform U val fns =
     (case val of
        None \<Rightarrow> Inr None
      | Some v \<Rightarrow>
          (case Perform_loop U v fns of
             Inl e \<Rightarrow> Inl e
           | Inr None \<Rightarrow> Inr None
           | Inr (Some (action, a)) \<Rightarrow>
               (case Apply action a of Inl e \<Rightarrow> Inl e | Inr r \<Rightarrow> Inr (Some r))))"

subsection \<open>Decoding a quoted scalar\<close>

text \<open>
  The case \<^verbatim>\<open>'"'\<close> of \<^verbatim>\<open>Value.unmarshalRFC7951\<close> from the unquoted and interned
  \<^verbatim>\<open>item\<close> on; the result is the data stored in the value. \<open>parseFloat\<close> is
  \<^verbatim>\<open>strconv.ParseFloat(\<cdot>, 64)\<close>. In each numeric branch the store \<^verbatim>\<open>val.data = f\<close> is
  followed, without a return, by the integer parse, which stores again.
\<close>

definition Contains :: "string \<Rightarrow> char \<Rightarrow> bool" where
  "Contains s c = (c \<in> set s)"

definition unmarshalQuoted :: "(string \<Rightarrow> float64 option) \<Rightarrow> string \<Rightarrow> Value" where
  "unmarshalQuoted parseFloat item =
     (if length item = 0 then VString item
      else
        let c = item ! 0 in
        if c = CHR ''-'' \<and> length item \<ge> 2 then
          (let n = item ! 1 in
           if \<not> isDigit n then VString item
           else
             (case (if Contains item CHR ''.''
                    then (case parseFloat item of
                            None \<Rightarrow> Inl (VString item)
                          | Some f \<Rightarrow> Inr (VF64 f))
                    else Inr VNull) of
                Inl ret \<Rightarrow> ret
              | Inr stored \<Rightarrow>
                  (case ParseInt item 64 of
                     None \<Rightarrow> VString item
                   | Some i \<Rightarrow> VI64 (word_of_int i))))
        else if c = CHR ''+'' \<and> length item \<ge> 2 then
          (let n = item ! 1 in
           if \<not> isDigit n then VString item
           else
             (case (if Contains item CHR ''.''
                    then (case parseFloat (tl item) of
                            None \<Rightarrow> Inl (VString item)
                          | Some f \<Rightarrow> Inr (VF64 f))
                    else Inr VNull) of
                Inl ret \<Rightarrow> ret
              | Inr stored \<Rightarrow>
                  (case ParseUint (tl item) 64 of
                     None \<Rightarrow> VString item
                   | Some i \<Rightarrow> VU64 (of_nat i))))
        else if isDigit c then
          (case (if Contains item CHR ''.''
                 then (case parseFloat item of
                         None \<Rightarrow> Inl (VString item)
                       | Some f \<Rightarrow> Inr (VF64 f))
                 else Inr VNull) of
             Inl ret \<Rightarrow> ret
           | Inr stored \<Rightarrow>
               (case ParseUint item 64 of
                  None \<Rightarrow> VString item
                | Some i \<Rightarrow> VU64 (of_nat i)))
        else VString item)"

section \<open>Containers\<close>

subsection \<open>Stores\<close>

text \<open>
  The operations of the persistent hash map behind an object, on the list of its
  entries: \<^verbatim>\<open>Find\<close>, \<^verbatim>\<open>Contains\<close>, \<^verbatim>\<open>Assoc\<close> (an existing key keeps its place, a new one
  goes last) and \<^verbatim>\<open>Delete\<close>.
\<close>

definition store_Find :: "(string \<times> Value) list \<Rightarrow> string \<Rightarrow> Value option" where
  "store_Find s k = map_of s k"

definition store_Contains :: "(string \<times> Value) list \<Rightarrow> string \<Rightarrow> bool" where
  "store_Contains s k = (map_of s k \<noteq> None)"

fun store_Assoc :: "string \<Rightarrow> Value \<Rightarrow> (string \<times> Value) list \<Rightarrow> (string \<times> Value) list" where
  "store_Assoc k v [] = [(k, v)]"
| "store_Assoc k v (e # s) = (if fst e = k then (k, v) # s else e # store_Assoc k v s)"

definition store_Delete :: "string \<Rightarrow> (string \<times> Value) list \<Rightarrow> (string \<times> Value) list" where
  "store_Delete k s = filter (\<lambda>e. fst e \<noteq> k) s"

subsection \<open>Keys and modules\<close>

text \<open>\<^verbatim>\<open>strings.SplitN(s, sep, 2)\<close> for a separator of one byte.\<close>

definition SplitN2 :: "string \<Rightarrow> char \<Rightarrow> string list" where
  "SplitN2 s sep =
     (if sep \<in> set s
      then [takeWhile (\<lambda>c. c \<noteq> sep) s, tl (dropWhile (\<lambda>c. c \<noteq> sep) s)]
      else [s])"

definition parseKey :: "string \<Rightarrow> string \<Rightarrow> string \<times> string" where
  "parseKey module k =
     (case SplitN2 k CHR '':'' of
        [e] \<Rightarrow> (module, e)
      | e0 # e1 # es \<Rightarrow> (e0, e1)
      | [] \<Rightarrow> (module, k))"

definition adaptKey :: "string \<Rightarrow> string \<Rightarrow> string" where
  "adaptKey module key =
     (case parseKey module key of
        (module', key') \<Rightarrow> if module' = [] then key' else module' @ '':'' @ key')"

definition nilDereference :: error where
  "nilDereference = ''runtime error: invalid memory address or nil pointer dereference''"

definition nilNotValue :: error where
  "nilNotValue = ''interface conversion: interface {} is nil, not *data.Value''"

text \<open>
  \<^verbatim>\<open>Value.belongsTo\<close> with \<^verbatim>\<open>Array.belongsTo\<close> and \<^verbatim>\<open>Object.belongsTo\<close>, and the loops
  of the latter two. \<open>adaptSlots\<close> is the \<^verbatim>\<open>Range\<close> of \<^verbatim>\<open>Array.belongsTo\<close>, which stores
  \<^verbatim>\<open>out.adaptValue(val)\<close> at every index. \<open>adaptEntries\<close> is the \<^verbatim>\<open>Range\<close> of
  \<^verbatim>\<open>Object.belongsTo\<close> over the entries of the old object, with the transient store of
  the new object as its last argument.
\<close>

fun belongsTo :: "Value \<Rightarrow> string \<Rightarrow> error + Value"
  and adaptSlots :: "string \<Rightarrow> Value option list \<Rightarrow> error + Value option list"
  and adaptEntries ::
    "string \<Rightarrow> string \<Rightarrow> (string \<times> Value) list \<Rightarrow> (string \<times> Value) list
       \<Rightarrow> error + (string \<times> Value) list"
where
  "belongsTo (VArray m s) moduleName =
     (if moduleName = m then Inr (VArray m s)
      else (case adaptSlots moduleName s of
              Inl e \<Rightarrow> Inl e
            | Inr s' \<Rightarrow> Inr (VArray moduleName s')))"
| "belongsTo (VObject m s) moduleName =
     (if moduleName = m then Inr (VObject m s)
      else (case adaptEntries moduleName m s s of
              Inl e \<Rightarrow> Inl e
            | Inr s' \<Rightarrow> Inr (VObject moduleName s')))"
| "belongsTo VNull moduleName = Inr VNull"
| "belongsTo VEmpty moduleName = Inr VEmpty"
| "belongsTo (VBool b) moduleName = Inr (VBool b)"
| "belongsTo (VI32 w) moduleName = Inr (VI32 w)"
| "belongsTo (VU32 w) moduleName = Inr (VU32 w)"
| "belongsTo (VI64 w) moduleName = Inr (VI64 w)"
| "belongsTo (VU64 w) moduleName = Inr (VU64 w)"
| "belongsTo (VF64 f) moduleName = Inr (VF64 f)"
| "belongsTo (VString x) moduleName = Inr (VString x)"
| "belongsTo (VInstanceID i) moduleName = Inr (VInstanceID i)"
| "adaptSlots moduleName [] = Inr []"
| "adaptSlots moduleName (None # s) = Inl nilDereference"
| "adaptSlots moduleName (Some v # s) =
     (case belongsTo v moduleName of
        Inl e \<Rightarrow> Inl e
      | Inr v' \<Rightarrow>
          (case adaptSlots moduleName s of
             Inl e \<Rightarrow> Inl e
           | Inr s' \<Rightarrow> Inr (Some v' # s')))"
| "adaptEntries new old [] newStore = Inr newStore"
| "adaptEntries new old ((key, val) # rest) newStore =
     (if fst (parseKey old key) = [] \<or> fst (parseKey old key) = old
      then (case belongsTo val (fst (parseKey new key)) of
              Inl e \<Rightarrow> Inl e
            | Inr v \<Rightarrow>
                adaptEntries new old rest
                  (store_Delete (adaptKey old key) (store_Assoc (adaptKey new key) v newStore)))
      else adaptEntries new old rest newStore)"


subsection \<open>Arrays\<close>

definition Array_Length :: "Value option list \<Rightarrow> int" where
  "Array_Length s = int (length s)"

definition Array_Contains :: "Value option list \<Rightarrow> int \<Rightarrow> bool" where
  "Array_Contains s index = (index < Array_Length s \<and> index \<ge> 0)"

text \<open>
  \<^verbatim>\<open>Array.At\<close>: \<^verbatim>\<open>nil\<close> out of bounds; within bounds the type assertion
  \<^verbatim>\<open>arr.store.At(index).(*Value)\<close>, which panics on the untyped \<^verbatim>\<open>nil\<close>.
\<close>

definition Array_At :: "Value option list \<Rightarrow> int \<Rightarrow> error + Value option" where
  "Array_At s index =
     (if index \<ge> Array_Length s \<or> index < 0 then Inr None
      else (case s ! nat index of
              None \<Rightarrow> Inl nilNotValue
            | Some v \<Rightarrow> Inr (Some v)))"

text \<open>\<^verbatim>\<open>Array.adaptValue(val)\<close> is \<^verbatim>\<open>val.belongsTo(val, arr.module)\<close>, on a pointer.\<close>

definition Array_adaptValue :: "string \<Rightarrow> Value option \<Rightarrow> error + Value" where
  "Array_adaptValue m val =
     (case val of None \<Rightarrow> Inl nilDereference | Some v \<Rightarrow> belongsTo v m)"

text \<open>
  \<^verbatim>\<open>Array.Assoc(index, value)\<close>. The loop appends the untyped \<^verbatim>\<open>nil\<close> once for every
  index from \<^verbatim>\<open>arr.Length()\<close> to \<^verbatim>\<open>index\<close>; the vector's \<^verbatim>\<open>Assoc\<close> then replaces the
  element at \<^verbatim>\<open>index\<close>, and panics on a negative index.
\<close>

definition Array_Assoc ::
  "string \<Rightarrow> Value option list \<Rightarrow> int \<Rightarrow> native \<Rightarrow> error + (string \<times> Value option list)"
where
  "Array_Assoc m s index value =
     (let newStore =
            (if Array_Length s \<le> index
             then s @ replicate (nat (index + 1 - Array_Length s)) None
             else s)
      in (case ValueNew value of
            Inl e \<Rightarrow> Inl e
          | Inr val \<Rightarrow>
              (case Array_adaptValue m val of
                 Inl e \<Rightarrow> Inl e
               | Inr v \<Rightarrow>
                   if index < 0 then Inl ''index out of range''
                   else Inr (m, newStore[nat index := Some v]))))"

definition Array_Append ::
  "string \<Rightarrow> Value option list \<Rightarrow> native \<Rightarrow> error + (string \<times> Value option list)"
where
  "Array_Append m s value =
     (case ValueNew value of
        Inl e \<Rightarrow> Inl e
      | Inr val \<Rightarrow>
          (case Array_adaptValue m val of
             Inl e \<Rightarrow> Inl e
           | Inr v \<Rightarrow> Inr (m, s @ [Some v])))"

text \<open>
  \<^verbatim>\<open>Array.Delete(index)\<close>: the vector's \<^verbatim>\<open>Delete\<close> removes the element and shifts the
  later ones; an index out of range leaves the vector as it is.
\<close>

definition Array_Delete :: "string \<Rightarrow> Value option list \<Rightarrow> int \<Rightarrow> string \<times> Value option list" where
  "Array_Delete m s index =
     (if Array_Contains s index then (m, take (nat index) s @ drop (Suc (nat index)) s)
      else (m, s))"

subsection \<open>Objects\<close>

definition Object_At :: "string \<Rightarrow> (string \<times> Value) list \<Rightarrow> string \<Rightarrow> Value option" where
  "Object_At m s key = store_Find s (adaptKey m key)"

definition Object_Contains :: "string \<Rightarrow> (string \<times> Value) list \<Rightarrow> string \<Rightarrow> bool" where
  "Object_Contains m s key = store_Contains s (adaptKey m key)"

definition Object_Length :: "(string \<times> Value) list \<Rightarrow> int" where
  "Object_Length s = int (length s)"

text \<open>\<^verbatim>\<open>Object.adaptValue(k, val)\<close>: the value is moved to the module of the key.\<close>

definition Object_adaptValue :: "string \<Rightarrow> string \<Rightarrow> Value option \<Rightarrow> error + (string \<times> Value)" where
  "Object_adaptValue m k val =
     (case val of
        None \<Rightarrow> Inl nilDereference
      | Some v \<Rightarrow>
          (case belongsTo v (fst (parseKey m k)) of
             Inl e \<Rightarrow> Inl e
           | Inr v' \<Rightarrow> Inr (adaptKey m k, v')))"

definition Object_Assoc ::
  "string \<Rightarrow> (string \<times> Value) list \<Rightarrow> string \<Rightarrow> native \<Rightarrow> error + (string \<times> (string \<times> Value) list)"
where
  "Object_Assoc m s key value =
     (case ValueNew value of
        Inl e \<Rightarrow> Inl e
      | Inr val \<Rightarrow>
          (case Object_adaptValue m key val of
             Inl e \<Rightarrow> Inl e
           | Inr (k, v) \<Rightarrow> Inr (m, store_Assoc k v s)))"

definition Object_Delete :: "string \<Rightarrow> (string \<times> Value) list \<Rightarrow> string \<Rightarrow> string \<times> (string \<times> Value) list" where
  "Object_Delete m s key = (m, store_Delete (adaptKey m key) s)"

subsection \<open>Lookup by instance identifier\<close>

text \<open>The data of a value as the \<^verbatim>\<open>interface{}\<close> an \<^verbatim>\<open>interface{}\<close> handler receives.\<close>

fun dataOf :: "Value \<Rightarrow> native" where
  "dataOf VNull = NNil"
| "dataOf VEmpty = NEmpty"
| "dataOf (VBool b) = NBool b"
| "dataOf (VI32 w) = NInt32 w"
| "dataOf (VU32 w) = NUint32 w"
| "dataOf (VI64 w) = NInt64 w"
| "dataOf (VU64 w) = NUint64 w"
| "dataOf (VF64 f) = NFloat64 f"
| "dataOf (VString s) = NString s"
| "dataOf (VInstanceID i) = NInstanceID i"
| "dataOf (VObject m s) = NObject m s"
| "dataOf (VArray m s) = NArray m s"

text \<open>
  \<^verbatim>\<open>ValueNew(v.Perform(\<dots>))\<close> for handlers that return a \<^verbatim>\<open>*Value\<close>: the \<^verbatim>\<open>nil\<close>
  interface of an unmatched dispatch becomes the null value, and a returned pointer is
  passed through, also when it is \<^verbatim>\<open>nil\<close>.
\<close>

definition ValueNew_result :: "Value option option \<Rightarrow> Value option" where
  "ValueNew_result r = (case r of None \<Rightarrow> Some VNull | Some p \<Rightarrow> p)"

text \<open>
  \<^verbatim>\<open>posPredicate.Find\<close>. The handler returns its \<^verbatim>\<open>*Value\<close> together with the variable
  \<^verbatim>\<open>found\<close> that it assigns; \<^verbatim>\<open>int(p.pos)\<close> reads the 64 bits as a signed integer.
\<close>

definition posPredicate_Find ::
  "unicode \<Rightarrow> 64 word \<Rightarrow> Value option \<Rightarrow> error + (Value option \<times> bool)"
where
  "posPredicate_Find U p value =
     (case Perform U value
             [HArray (\<lambda>m s.
                if \<not> Array_Contains s (sint p) then Inr (None, False)
                else (case Array_At s (sint p) of
                        Inl e \<Rightarrow> Inl e
                      | Inr v \<Rightarrow> Inr (v, True)))] of
        Inl e \<Rightarrow> Inl e
      | Inr None \<Rightarrow> Inr (ValueNew_result None, False)
      | Inr (Some (Inl e)) \<Rightarrow> Inl e
      | Inr (Some (Inr (v, found))) \<Rightarrow> Inr (ValueNew_result (Some v), found))"

text \<open>
  \<^verbatim>\<open>Array.detect\<close> with the function of the leaf-list case of \<^verbatim>\<open>exprPredicate.Find\<close>:
  the first element whose string form is the value of the predicate.
\<close>

fun detect_leaf ::
  "unicode \<Rightarrow> string \<Rightarrow> Value option list \<Rightarrow> error + (Value option \<times> bool)"
where
  "detect_leaf U pv [] = Inr (None, False)"
| "detect_leaf U pv (None # s) = Inl nilDereference"
| "detect_leaf U pv (Some v # s) =
     (case RFC7951String U v of
        Inl e \<Rightarrow> Inl e
      | Inr str \<Rightarrow> if str = pv then Inr (Some v, True) else detect_leaf U pv s)"

datatype loop_state = Return "Value option" bool | Done "Value option" bool

text \<open>
  \<^verbatim>\<open>nodeID.Find\<close>, \<^verbatim>\<open>predicates.Find\<close>, \<^verbatim>\<open>predicate.Find\<close> and \<^verbatim>\<open>exprPredicate.Find\<close>.
  \<open>predicates_loop\<close> is the \<^verbatim>\<open>for\<close> loop of \<^verbatim>\<open>predicates.Find\<close> over the remaining
  predicates, with the variables \<^verbatim>\<open>cur\<close>, \<^verbatim>\<open>out\<close> and \<^verbatim>\<open>found\<close>; \<open>selectItems_expr\<close> is
  \<^verbatim>\<open>Array.selectItems\<close> with the function of the list case of \<^verbatim>\<open>exprPredicate.Find\<close>,
  threading \<^verbatim>\<open>found\<close>; \<^verbatim>\<open>Array.Range\<close> hands each slot to it as \<^verbatim>\<open>val.(*Value)\<close>, which
  panics on the untyped \<^verbatim>\<open>nil\<close>.
\<close>

function nodeID_Find ::
    "unicode \<Rightarrow> nodeID \<Rightarrow> Value option \<Rightarrow> error + (Value option \<times> bool)"
  and predicates_Find ::
    "unicode \<Rightarrow> predicate list \<Rightarrow> Value option \<Rightarrow> error + (Value option \<times> bool)"
  and predicates_loop ::
    "unicode \<Rightarrow> predicate list \<Rightarrow> Value option \<Rightarrow> Value option \<Rightarrow> bool \<Rightarrow> error + loop_state"
  and predicate_Find ::
    "unicode \<Rightarrow> predicate \<Rightarrow> Value option \<Rightarrow> error + (Value option \<times> bool)"
  and selectItems_expr ::
    "unicode \<Rightarrow> nodeID \<Rightarrow> string \<Rightarrow> string \<Rightarrow> Value option list \<Rightarrow> bool
       \<Rightarrow> error + (Value option list \<times> bool)"
where
  "nodeID_Find U (NodeID p i inferred ps) value =
     (case value of
        None \<Rightarrow> Inr (None, False)
      | Some val \<Rightarrow>
          (case Perform U value
                  [HObject (\<lambda>m s.
                     (case ps of
                        None \<Rightarrow> Inr (Object_At m s (p @ '':'' @ i), Object_Contains m s (p @ '':'' @ i))
                      | Some preds \<Rightarrow> predicates_Find U preds (Object_At m s (p @ '':'' @ i))))] of
             Inl e \<Rightarrow> Inl e
           | Inr None \<Rightarrow> Inr (ValueNew_result None, False)
           | Inr (Some (Inl e)) \<Rightarrow> Inl e
           | Inr (Some (Inr (v, found))) \<Rightarrow> Inr (ValueNew_result (Some v), found)))"
| "predicates_Find U preds value =
     (case predicates_loop U preds value None True of
        Inl e \<Rightarrow> Inl e
      | Inr (Return v found) \<Rightarrow> Inr (v, found)
      | Inr (Done out found) \<Rightarrow>
          (case Perform U out
                  [HArray (\<lambda>m s.
                     if Array_Length s \<noteq> 1 then Inr (None, False)
                     else (case Array_At s 0 of
                             Inl e \<Rightarrow> Inl e
                           | Inr v \<Rightarrow> Inr (v, found))),
                   HValue (\<lambda>v. Inr (Some v, found))] of
             Inl e \<Rightarrow> Inl e
           | Inr None \<Rightarrow> Inr (ValueNew_result None, found)
           | Inr (Some (Inl e)) \<Rightarrow> Inl e
           | Inr (Some (Inr (v, found'))) \<Rightarrow> Inr (ValueNew_result (Some v), found')))"
| "predicates_loop U [] cur out found = Inr (Done out found)"
| "predicates_loop U (pred # rest) cur out found =
     (case predicate_Find U pred cur of
        Inl e \<Rightarrow> Inl e
      | Inr (cur', found') \<Rightarrow>
          if \<not> found' then Inr (Return None found')
          else
            (case Perform U cur'
                    [HArray (\<lambda>m s. (ValueNew (NArray m s), found')),
                     HInterface (\<lambda>v.
                        if rest \<noteq> [] then (Inr None, False)
                        else (ValueNew (dataOf v), found'))] of
               Inl e \<Rightarrow> Inl e
             | Inr None \<Rightarrow> predicates_loop U rest cur' (ValueNew_result None) found'
             | Inr (Some (Inl e, found'')) \<Rightarrow> Inl e
             | Inr (Some (Inr out', found'')) \<Rightarrow>
                 if out' = None then Inr (Done out' found'')
                 else predicates_loop U rest cur' out' found''))"
| "predicate_Find U (PosPredicate n) value = posPredicate_Find U n value"
| "predicate_Find U (ExprPredicate nid pv) value =
     (case Perform U value
             [HArray (\<lambda>m s.
                if id_identifier nid = ''.'' then detect_leaf U pv s
                else (case selectItems_expr U nid pv m s False of
                        Inl e \<Rightarrow> Inl e
                      | Inr (items, found) \<Rightarrow> Inr (Some (VArray m items), found)))] of
        Inl e \<Rightarrow> Inl e
      | Inr None \<Rightarrow> Inr (ValueNew_result None, False)
      | Inr (Some (Inl e)) \<Rightarrow> Inl e
      | Inr (Some (Inr (v, found))) \<Rightarrow> Inr (ValueNew_result (Some v), found))"
| "selectItems_expr U nid pv m [] found = Inr ([], found)"
| "selectItems_expr U nid pv m (None # s) found = Inl nilNotValue"
| "selectItems_expr U nid pv m (Some elem # s) found =
     (case nodeID_Find U nid (Some elem) of
        Inl e \<Rightarrow> Inl e
      | Inr (value, foundSelector) \<Rightarrow>
          if \<not> foundSelector then selectItems_expr U nid pv m s found
          else
            (case value of
               None \<Rightarrow> Inl nilDereference
             | Some v \<Rightarrow>
                 (case RFC7951String U v of
                    Inl e \<Rightarrow> Inl e
                  | Inr str \<Rightarrow>
                      if str = pv then
                        (case Array_adaptValue m (Some elem) of
                           Inl e \<Rightarrow> Inl e
                         | Inr elem' \<Rightarrow>
                             (case selectItems_expr U nid pv m s True of
                                Inl e \<Rightarrow> Inl e
                              | Inr (items, found') \<Rightarrow> Inr (Some elem' # items, found')))
                      else selectItems_expr U nid pv m s found)))"
  by pat_completeness auto

termination
  by (relation "inv_image (less_than <*lex*> less_than) (\<lambda>x. case x of
          Inl (Inl (U, nid, v)) \<Rightarrow> (3 * size nid + 1, 0)
        | Inl (Inr (U, preds, v)) \<Rightarrow> (3 * size_list size preds + 2, 0)
        | Inr (Inl (U, preds, cur, out, found)) \<Rightarrow> (3 * size_list size preds + 1, 0)
        | Inr (Inr (Inl (U, pred, v))) \<Rightarrow> (3 * size pred, 0)
        | Inr (Inr (Inr (U, nid, pv, m, s, found))) \<Rightarrow> (3 * size nid + 2, length s))")
    auto

text \<open>\<^verbatim>\<open>InstanceID.Find\<close> and its loop over \<^verbatim>\<open>i.ids\<close>, and \<^verbatim>\<open>InstanceID.MatchAgainst\<close>.\<close>

fun InstanceID_Find_loop ::
  "unicode \<Rightarrow> nodeID list \<Rightarrow> Value option \<Rightarrow> bool \<Rightarrow> error + (Value option \<times> bool)"
where
  "InstanceID_Find_loop U [] value found = Inr (value, found)"
| "InstanceID_Find_loop U (n # rest) value found =
     (case nodeID_Find U n value of
        Inl e \<Rightarrow> Inl e
      | Inr (value', found') \<Rightarrow>
          if \<not> found' then Inr (None, False)
          else InstanceID_Find_loop U rest value' found')"

definition InstanceID_Find ::
  "unicode \<Rightarrow> InstanceID \<Rightarrow> Value option \<Rightarrow> error + (Value option \<times> bool)"
where
  "InstanceID_Find U i value = InstanceID_Find_loop U (ids i) value False"

definition MatchAgainst ::
  "unicode \<Rightarrow> InstanceID \<Rightarrow> Value option \<Rightarrow> error + Value option"
where
  "MatchAgainst U i value =
     (case InstanceID_Find U i value of Inl e \<Rightarrow> Inl e | Inr (v, found) \<Rightarrow> Inr v)"

section \<open>Parsing instance identifiers\<close>

subsection \<open>String functions\<close>

text \<open>\<^verbatim>\<open>strings.Trim(s, cutset)\<close> for a cutset of ASCII bytes.\<close>

definition Trim :: "string \<Rightarrow> string \<Rightarrow> string" where
  "Trim s cutset =
     rev (dropWhile (\<lambda>c. c \<in> set cutset) (rev (dropWhile (\<lambda>c. c \<in> set cutset) s)))"

definition wsp :: string where
  "wsp = [CHR 0x20, CHR 0x09]"

text \<open>\<^verbatim>\<open>strings.IndexRune(s, c)\<close> for an ASCII \<open>c\<close>: the index of its first occurrence, or \<open>-1\<close>.\<close>

definition IndexRune :: "string \<Rightarrow> char \<Rightarrow> int" where
  "IndexRune s c = (if c \<in> set s then int (length (takeWhile (\<lambda>x. x \<noteq> c) s)) else - 1)"

text \<open>
  \<^verbatim>\<open>strings.ToUpper(str[:3]) == "XML"\<close>: three bytes upper-case to the three ASCII
  letters exactly when they are these letters in either case.
\<close>

definition ascii_upper :: "char \<Rightarrow> char" where
  "ascii_upper c = (if 97 \<le> byte c \<and> byte c \<le> 122 then char_of (byte c - 32) else c)"

definition ToUpper3_is_XML :: "string \<Rightarrow> bool" where
  "ToUpper3_is_XML str = (map ascii_upper (take 3 str) = ''XML'')"

subsection \<open>Splitting\<close>

text \<open>
  \<^verbatim>\<open>InstanceID.getNodeIDStrings\<close>. \<open>cur\<close> is \<^verbatim>\<open>input[first:i]\<close>, the bytes read since the
  last split. The loop reads runes, but compares them with ASCII delimiters only, which
  occur in a string exactly where they occur as bytes.
\<close>

fun getNodeIDStrings_loop ::
  "string \<Rightarrow> bool \<Rightarrow> bool \<Rightarrow> string \<Rightarrow> string list \<Rightarrow> error + string list"
where
  "getNodeIDStrings_loop [] inSingleQ inDoubleQ cur out =
     (if inDoubleQ \<or> inSingleQ then Inl ''unterminated quote''
      else Inr (if cur \<noteq> [] then out @ [cur] else out))"
| "getNodeIDStrings_loop (r # rest) inSingleQ inDoubleQ cur out =
     (if r = CHR 0x27 then getNodeIDStrings_loop rest (\<not> inSingleQ) inDoubleQ (cur @ [r]) out
      else if r = CHR 0x22 then getNodeIDStrings_loop rest inSingleQ (\<not> inDoubleQ) (cur @ [r]) out
      else if r = CHR ''/'' \<and> \<not> inDoubleQ \<and> \<not> inSingleQ
        then getNodeIDStrings_loop rest inSingleQ inDoubleQ [] (out @ [cur])
      else getNodeIDStrings_loop rest inSingleQ inDoubleQ (cur @ [r]) out)"

definition getNodeIDStrings :: "string \<Rightarrow> error + string list" where
  "getNodeIDStrings input = getNodeIDStrings_loop input False False [] []"

text \<open>
  \<^verbatim>\<open>predicates.getPredicateStrings\<close>. A closing bracket outside quotes cuts
  \<^verbatim>\<open>input[first:i+1]\<close>, whether or not a predicate is open; what follows the last cut is
  dropped.
\<close>

fun getPredicateStrings_loop ::
  "string \<Rightarrow> bool \<Rightarrow> bool \<Rightarrow> bool \<Rightarrow> string \<Rightarrow> string list \<Rightarrow> error + string list"
where
  "getPredicateStrings_loop [] inSingleQ inDoubleQ inPredicate cur out =
     (if inDoubleQ \<or> inSingleQ then Inl ''unterminated quote''
      else if inPredicate then Inl ''unterminated predicate''
      else Inr out)"
| "getPredicateStrings_loop (r # rest) inSingleQ inDoubleQ inPredicate cur out =
     (if r = CHR ''['' then
        (if \<not> inDoubleQ \<and> \<not> inSingleQ then
           (if inPredicate then Inl ''nested predicates are not allowed''
            else getPredicateStrings_loop rest inSingleQ inDoubleQ True (cur @ [r]) out)
         else getPredicateStrings_loop rest inSingleQ inDoubleQ inPredicate (cur @ [r]) out)
      else if r = CHR '']'' then
        (if \<not> inDoubleQ \<and> \<not> inSingleQ
         then getPredicateStrings_loop rest inSingleQ inDoubleQ False [] (out @ [cur @ [r]])
         else getPredicateStrings_loop rest inSingleQ inDoubleQ inPredicate (cur @ [r]) out)
      else if r = CHR 0x27
        then getPredicateStrings_loop rest (\<not> inSingleQ) inDoubleQ inPredicate (cur @ [r]) out
      else if r = CHR 0x22
        then getPredicateStrings_loop rest inSingleQ (\<not> inDoubleQ) inPredicate (cur @ [r]) out
      else getPredicateStrings_loop rest inSingleQ inDoubleQ inPredicate (cur @ [r]) out)"

definition getPredicateStrings :: "string \<Rightarrow> error + string list" where
  "getPredicateStrings input = getPredicateStrings_loop input False False False [] []"

subsection \<open>Identifiers\<close>

text \<open>
  \<^verbatim>\<open>nodeID.checkIDPart\<close>: \<^term>\<open>None\<close> when the part passes, the message of the panic
  otherwise. \<open>c\<close> is the first rune (\<^verbatim>\<open>i == 0\<close>).
\<close>

definition isAlphaNumeric :: "unicode \<Rightarrow> nat \<Rightarrow> bool" where
  "isAlphaNumeric U r = (r = 95 \<or> IsLetter U r \<or> IsDigit U r)"

definition checkIDPart :: "unicode \<Rightarrow> string \<Rightarrow> error option" where
  "checkIDPart U str =
     (if length str \<ge> 3 \<and> ToUpper3_is_XML str
      then Some (''invalid identifier, not allowed to start with xml: '' @ str)
      else (case runes str of
              [] \<Rightarrow> None
            | c # rs \<Rightarrow>
                if \<not> (c = 95 \<or> IsLetter U c) then Some (''invalid node-identifier '' @ str)
                else if list_all (\<lambda>r. \<not> (\<not> isAlphaNumeric U r \<and> r \<noteq> 45 \<and> r \<noteq> 46)) rs then None
                else Some (''invalid node-identifier '' @ str)))"


subsection \<open>Node identifiers and predicates\<close>

definition indexOutOfRange :: error where
  "indexOutOfRange = ''runtime error: index out of range [0] with length 0''"

definition sliceOutOfRange :: error where
  "sliceOutOfRange = ''runtime error: slice bounds out of range [:-1]''"

definition expectedQuote :: error where
  "expectedQuote =
     ''invalid predicate, expected '' @ [CHR 0x27, CHR 0x27, CHR 0x27] @ '' or ''
       @ [CHR 0x27, CHR 0x22, CHR 0x27]"

text \<open>
  The end of \<^verbatim>\<open>exprPredicate.parse\<close>, from \<^verbatim>\<open>expr := exprParts[1]\<close> on: the value between
  the quotes.
\<close>

definition exprValue :: "string \<Rightarrow> error + string" where
  "exprValue expr =
     (if expr = [] then Inl indexOutOfRange
      else if expr ! 0 \<noteq> CHR 0x22 \<and> expr ! 0 \<noteq> CHR 0x27
        then Inl expectedQuote
      else
        let end = IndexRune (tl expr) (expr ! 0);
            expr' = tl expr
        in if end \<noteq> int (length expr') - 1 then Inl ''unterminated expression value''
           else if end < 0 then Inl sliceOutOfRange
           else Inr (take (nat end) expr'))"

text \<open>
  The head of \<^verbatim>\<open>nodeID.parse\<close>: prefix, identifier (still with its predicates) and
  \<^verbatim>\<open>prefixInferred\<close>.
\<close>

definition nodeID_split :: "string \<Rightarrow> string \<Rightarrow> error + (string \<times> string \<times> bool)" where
  "nodeID_split prefix input =
     (case SplitN2 input CHR '':'' of
        [i] \<Rightarrow> if prefix \<noteq> [] then Inr (prefix, i, True) else Inl ''unable to determine prefix''
      | p # i # r \<Rightarrow> Inr (p, i, p = prefix)
      | [] \<Rightarrow> Inr ([], [], False))"

lemma length_takeWhile_mem: "c \<in> set s \<Longrightarrow> length (takeWhile (\<lambda>x. x \<noteq> c) s) < length s"
  by (induction s) auto

lemma SplitN2_length:
  "SplitN2 s c = [a, b] \<Longrightarrow> length a < length s"
  by (auto simp: SplitN2_def length_takeWhile_mem split: if_splits)

lemma nodeID_split_length:
  "nodeID_split prefix input = Inr (p, i, inferred) \<Longrightarrow> length i \<le> length input"
  using length_dropWhile_le [of "\<lambda>c. c \<noteq> CHR '':''" input]
  by (auto simp: nodeID_split_def SplitN2_def split: if_splits list.splits)

lemma Trim_length: "length (Trim s cutset) \<le> length s"
  unfolding Trim_def
  by (metis length_dropWhile_le length_rev le_trans)

lemma getPredicateStrings_loop_length:
  "getPredicateStrings_loop s q1 q2 inp cur out = Inr strs \<Longrightarrow>
   sum_list (map length strs) \<le> sum_list (map length out) + length cur + length s"
  by (induction s q1 q2 inp cur out rule: getPredicateStrings_loop.induct)
     (auto split: if_splits)

lemma getPredicateStrings_length:
  "getPredicateStrings s = Inr strs \<Longrightarrow> sum_list (map length strs) \<le> length s"
  using getPredicateStrings_loop_length [of s False False False "[]" "[]" strs]
  by (simp add: getPredicateStrings_def)

text \<open>
  \<^verbatim>\<open>nodeID.parse\<close>, the loop of \<^verbatim>\<open>predicates.parse\<close> over the predicate strings,
  \<^verbatim>\<open>predicate.parse\<close> (with \<^verbatim>\<open>posPredicate.parse\<close>) and \<^verbatim>\<open>exprPredicate.parse\<close>.
\<close>

function nodeID_parse :: "unicode \<Rightarrow> string \<Rightarrow> string \<Rightarrow> error + nodeID"
  and predicates_parse :: "unicode \<Rightarrow> string \<Rightarrow> string list \<Rightarrow> error + predicate list"
  and predicate_parse :: "unicode \<Rightarrow> string \<Rightarrow> string \<Rightarrow> error + predicate"
  and exprPredicate_parse :: "unicode \<Rightarrow> string \<Rightarrow> string \<Rightarrow> error + predicate"
where
  "nodeID_parse U prefix input =
     (case nodeID_split prefix input of
        Inl e \<Rightarrow> Inl e
      | Inr (p, ident, inferred) \<Rightarrow>
          (case checkIDPart U p of
             Some e \<Rightarrow> Inl e
           | None \<Rightarrow>
               if CHR ''['' \<in> set ident then
                 (case getPredicateStrings (dropWhile (\<lambda>c. c \<noteq> CHR ''['') ident) of
                    Inl e \<Rightarrow> Inl e
                  | Inr predStrings \<Rightarrow>
                      (case predicates_parse U p predStrings of
                         Inl e \<Rightarrow> Inl e
                       | Inr preds \<Rightarrow>
                           (case checkIDPart U (takeWhile (\<lambda>c. c \<noteq> CHR ''['') ident) of
                              Some e \<Rightarrow> Inl e
                            | None \<Rightarrow>
                                Inr (NodeID p (takeWhile (\<lambda>c. c \<noteq> CHR ''['') ident) inferred
                                       (Some preds)))))
               else
                 (case checkIDPart U ident of
                    Some e \<Rightarrow> Inl e
                  | None \<Rightarrow> Inr (NodeID p ident inferred None))))"
| "predicates_parse U prefix [] = Inr []"
| "predicates_parse U prefix (predString # rest) =
     (case predicate_parse U prefix predString of
        Inl e \<Rightarrow> Inl e
      | Inr pred \<Rightarrow>
          (case predicates_parse U prefix rest of
             Inl e \<Rightarrow> Inl e
           | Inr preds \<Rightarrow> Inr (pred # preds)))"
| "predicate_parse U prefix input =
     (if input = [] then Inl indexOutOfRange
      else if input ! 0 \<noteq> CHR ''['' \<or> last input \<noteq> CHR '']''
        then Inl (''invalid predicate '' @ [CHR 0x22] @ input @ [CHR 0x22])
      else
        (case ParseUint (Trim (Trim input ''[]'') wsp) 64 of
           Some u \<Rightarrow> Inr (PosPredicate (of_nat u))
         | None \<Rightarrow> exprPredicate_parse U prefix (Trim (Trim input ''[]'') wsp)))"
| "exprPredicate_parse U prefix input =
     (case SplitN2 input CHR ''='' of
        [a, b] \<Rightarrow>
          (case (if Trim a wsp = ''.'' then Inr (NodeID prefix ''.'' True None)
                 else nodeID_parse U prefix (Trim a wsp)) of
             Inl e \<Rightarrow> Inl e
           | Inr n \<Rightarrow>
               (case exprValue (Trim b wsp) of
                  Inl e \<Rightarrow> Inl e
                | Inr v \<Rightarrow> Inr (ExprPredicate n v)))
      | _ \<Rightarrow> Inl (''invalid predicate expression '' @ input))"
  by pat_completeness auto

termination
proof (relation "inv_image (less_than <*lex*> less_than) (\<lambda>x. case x of
          Inl (Inl (U, prefix, input)) \<Rightarrow> (4 * length input + 3, 0)
        | Inl (Inr (U, prefix, strs)) \<Rightarrow> (4 * sum_list (map length strs) + 2, length strs)
        | Inr (Inl (U, prefix, input)) \<Rightarrow> (4 * length input + 1, 0)
        | Inr (Inr (U, prefix, input)) \<Rightarrow> (4 * length input, 0))", goal_cases)
  case 1
  then show ?case by (intro wf_inv_image wf_lex_prod wf_less_than)
next
  case (2 U prefix input x p y ident inferred predStrings)
  have "sum_list (map length predStrings) \<le> length (dropWhile (\<lambda>c. c \<noteq> CHR ''['') ident)"
    using 2 by (intro getPredicateStrings_length) simp
  moreover have "length (dropWhile (\<lambda>c. c \<noteq> CHR ''['') ident) \<le> length ident"
    by (rule length_dropWhile_le)
  moreover have "length ident \<le> length input"
    using 2 nodeID_split_length [of prefix input p ident inferred] by simp
  ultimately show ?case by simp
next
  case 3
  then show ?case by simp
next
  case 4
  then show ?case by (cases "predString = []") auto
next
  case (5 U prefix input)
  have "length (Trim (Trim input ''[]'') wsp) \<le> length input"
    using Trim_length [of "Trim input ''[]''" wsp] Trim_length [of input "''[]''"] by linarith
  then show ?case by simp
next
  case (6 U prefix input a l b l')
  then have "length a < length input" by (intro SplitN2_length [of input "CHR ''=''" a b]) simp
  moreover have "length (Trim a wsp) \<le> length a" by (rule Trim_length)
  ultimately show ?case by simp
qed

declare nodeID_parse.simps [simp del] predicate_parse.simps [simp del]
  exprPredicate_parse.simps [simp del]

text \<open>\<^verbatim>\<open>InstanceID.parse\<close> with its loop over the node strings, and \<^verbatim>\<open>InstanceIDNew\<close>.\<close>

fun InstanceID_parse_loop :: "unicode \<Rightarrow> string \<Rightarrow> string list \<Rightarrow> error + nodeID list" where
  "InstanceID_parse_loop U prefix [] = Inr []"
| "InstanceID_parse_loop U prefix (nodeIDstring # rest) =
     (case nodeID_parse U prefix nodeIDstring of
        Inl e \<Rightarrow> Inl e
      | Inr node \<Rightarrow>
          (case InstanceID_parse_loop U (id_prefix node) rest of
             Inl e \<Rightarrow> Inl e
           | Inr nodeIDs \<Rightarrow> Inr (node # nodeIDs)))"

definition InstanceID_parse_body :: "unicode \<Rightarrow> string \<Rightarrow> error + InstanceID" where
  "InstanceID_parse_body U input =
     (case getNodeIDStrings input of
        Inl e \<Rightarrow> Inl e
      | Inr nodeIDstrings \<Rightarrow>
          if length nodeIDstrings = 0 then Inl ''must specify at least one node-identifier''
          else if nodeIDstrings ! 0 \<noteq> []
            then Inl (''must start with a '' @ [CHR 0x22] @ ''/'' @ [CHR 0x22])
          else if length (tl nodeIDstrings) = 0
            then Inl ''must specify at least one node-identifier''
          else
            (case InstanceID_parse_loop U [] (tl nodeIDstrings) of
               Inl e \<Rightarrow> Inl e
             | Inr nodeIDs \<Rightarrow> Inr (InstanceID nodeIDs)))"

text \<open>The deferred function of \<^verbatim>\<open>parse\<close> turns the payload of a panic into an error.\<close>

definition InstanceID_parse :: "unicode \<Rightarrow> string \<Rightarrow> error + InstanceID" where
  "InstanceID_parse U input =
     (case InstanceID_parse_body U input of
        Inl v \<Rightarrow> Inl (''invalid instance identifier: '' @ v)
      | Inr i \<Rightarrow> Inr i)"

definition InstanceIDNew :: "unicode \<Rightarrow> string \<Rightarrow> error + InstanceID" where
  "InstanceIDNew U instance = InstanceID_parse U instance"

text \<open>Range tables that hold no rune above \<open>U+00FF\<close>.\<close>

definition U0 :: unicode where
  "U0 = \<lparr> letter_above_latin1 = (\<lambda>r. False), digit_above_latin1 = (\<lambda>r. False),
          print_above_latin1 = (\<lambda>r. False) \<rparr>"

section \<open>Instance identifiers that print and parse back\<close>

text \<open>
  The bytes that \<^verbatim>\<open>checkIDPart\<close> lets through: those of \<open>ALPHA\<close>, \<open>DIGIT\<close>, \<open>_\<close>, \<open>-\<close> and
  \<open>.\<close>, and every byte from \<^verbatim>\<open>0x80\<close> on, which belongs to the encoding of a rune above
  the ASCII range.
\<close>

definition idbyte :: "char \<Rightarrow> bool" where
  "idbyte c = (128 \<le> byte c \<or> (65 \<le> byte c \<and> byte c \<le> 90) \<or> (97 \<le> byte c \<and> byte c \<le> 122)
               \<or> (48 \<le> byte c \<and> byte c \<le> 57) \<or> byte c = 95 \<or> byte c = 45 \<or> byte c = 46)"








text \<open>
  A string is guarded when no opening bracket occurs before its first quote character.
\<close>

definition notquote :: "char \<Rightarrow> bool" where
  "notquote c = (c \<noteq> CHR 0x27 \<and> c \<noteq> CHR 0x22)"

definition guarded :: "string \<Rightarrow> bool" where
  "guarded x = (CHR ''['' \<notin> set (takeWhile notquote x))"





section \<open>Trees\<close>

subsection \<open>Paths and selectors\<close>

text \<open>
  \<^verbatim>\<open>InstanceID.path\<close>: \<^verbatim>\<open>nil\<close> for an identifier without nodes; otherwise the identifier
  without its last node, or, when the last node has predicates, with the last node
  stripped of them.
\<close>

definition InstanceID_path :: "InstanceID \<Rightarrow> InstanceID option" where
  "InstanceID_path i =
     (if length (ids i) = 0 then None
      else
        let l = last (ids i) in
        if id_predicates l = None then Some (InstanceID (butlast (ids i)))
        else Some (InstanceID (butlast (ids i)
                     @ [NodeID (id_prefix l) (id_identifier l) (prefixInferred l) None])))"

text \<open>
  \<^verbatim>\<open>InstanceID.push\<close> parses the node with the prefix of the last node; the panic of
  \<^verbatim>\<open>nodeID.parse\<close> is not recovered here.
\<close>

definition InstanceID_push :: "unicode \<Rightarrow> InstanceID \<Rightarrow> string \<Rightarrow> error + InstanceID" where
  "InstanceID_push U i nodeIDstring =
     (let prefix = (if length (ids i) \<noteq> 0 then id_prefix (last (ids i)) else []) in
      case nodeID_parse U prefix nodeIDstring of
        Inl e \<Rightarrow> Inl e
      | Inr node \<Rightarrow> Inr (InstanceID (ids i @ [node])))"

text \<open>\<^verbatim>\<open>InstanceID.addPosPredicate\<close>; \<^verbatim>\<open>uint64(pos)\<close> keeps the 64 bits of the position \<open>n\<close>.\<close>

definition addPosPredicate :: "InstanceID \<Rightarrow> int \<Rightarrow> InstanceID" where
  "addPosPredicate i n =
     (if length (ids i) = 0 then i
      else
        let l = last (ids i) in
        InstanceID (butlast (ids i)
          @ [NodeID (id_prefix l) (id_identifier l) (prefixInferred l)
               (Some ((case id_predicates l of None \<Rightarrow> [] | Some ps \<Rightarrow> ps)
                        @ [PosPredicate (word_of_int n)]))]))"

text \<open>
  An \<^verbatim>\<open>instanceIDSelector\<close> is a \<^verbatim>\<open>*nodeID\<close> or a \<^verbatim>\<open>*predicates\<close>;
  \<^verbatim>\<open>InstanceID.selector\<close> is \<^verbatim>\<open>nil\<close> for an identifier without nodes.
\<close>

datatype selector = NodeSelector nodeID | PredicatesSelector "predicate list"

definition nodeID_selector :: "nodeID \<Rightarrow> selector" where
  "nodeID_selector n =
     (case id_predicates n of None \<Rightarrow> NodeSelector n | Some ps \<Rightarrow> PredicatesSelector ps)"

definition InstanceID_selector :: "InstanceID \<Rightarrow> selector option" where
  "InstanceID_selector i =
     (if length (ids i) = 0 then None else Some (nodeID_selector (last (ids i))))"

subsection \<open>Identifiers of a selector in a value\<close>

text \<open>
  The \<^verbatim>\<open>interface{}\<close> that \<^verbatim>\<open>computeIdentifier\<close> returns holds a key, an index or a
  slice of indices; \<^term>\<open>None\<close> is \<^verbatim>\<open>nil\<close>. The type assertions \<^verbatim>\<open>id.(string)\<close> and
  \<^verbatim>\<open>id.(int)\<close> panic on any other content.
\<close>

datatype ident = IdString string | IdInt int | IdInts "int list"

definition identType :: "ident option \<Rightarrow> string" where
  "identType x =
     (case x of
        None \<Rightarrow> ''nil''
      | Some (IdString s) \<Rightarrow> ''string''
      | Some (IdInt n) \<Rightarrow> ''int''
      | Some (IdInts l) \<Rightarrow> ''[]int'')"

definition assertString :: "ident option \<Rightarrow> error + string" where
  "assertString x =
     (case x of
        Some (IdString s) \<Rightarrow> Inr s
      | _ \<Rightarrow> Inl (''interface conversion: interface {} is '' @ identType x @ '', not string''))"

definition assertInt :: "ident option \<Rightarrow> error + int" where
  "assertInt x =
     (case x of
        Some (IdInt n) \<Rightarrow> Inr n
      | _ \<Rightarrow> Inl (''interface conversion: interface {} is '' @ identType x @ '', not int''))"

text \<open>
  The result of \<^verbatim>\<open>Perform\<close> with handlers that return an \<^verbatim>\<open>interface{}\<close> and may panic:
  no match and a returned \<^verbatim>\<open>nil\<close> are the same \<^verbatim>\<open>nil\<close>.
\<close>

definition performed :: "error + (error + 'a option) option \<Rightarrow> error + 'a option" where
  "performed r =
     (case r of
        Inl e \<Rightarrow> Inl e
      | Inr None \<Rightarrow> Inr None
      | Inr (Some (Inl e)) \<Rightarrow> Inl e
      | Inr (Some (Inr x)) \<Rightarrow> Inr x)"

text \<open>\<^verbatim>\<open>nodeID.computeIdentifier\<close>.\<close>

definition nodeID_computeIdentifier :: "unicode \<Rightarrow> nodeID \<Rightarrow> Value option \<Rightarrow> error + ident option" where
  "nodeID_computeIdentifier U n value =
     performed (Perform U value
       [HObject (\<lambda>m s.
          let key = id_prefix n @ '':'' @ id_identifier n in
          if Object_Contains m s key then Inr (Some (IdString key)) else Inr None)])"

text \<open>
  The two loops of \<^verbatim>\<open>exprPredicate.computeIdentifier\<close> over the slots of the array from
  index \<open>idx\<close> on; the vector's \<^verbatim>\<open>Range\<close> hands a slot to \<^verbatim>\<open>func(int, *Value)\<close> as a
  pointer, \<^verbatim>\<open>nil\<close> for the untyped \<^verbatim>\<open>nil\<close>.
\<close>

fun leaf_indices :: "unicode \<Rightarrow> string \<Rightarrow> Value option list \<Rightarrow> int \<Rightarrow> error + int list" where
  "leaf_indices U pv [] idx = Inr []"
| "leaf_indices U pv (None # s) idx = Inl nilDereference"
| "leaf_indices U pv (Some v # s) idx =
     (case RFC7951String U v of
        Inl e \<Rightarrow> Inl e
      | Inr str \<Rightarrow>
          (case leaf_indices U pv s (idx + 1) of
             Inl e \<Rightarrow> Inl e
           | Inr ret \<Rightarrow> Inr (if str = pv then idx # ret else ret)))"

fun list_indices ::
  "unicode \<Rightarrow> nodeID \<Rightarrow> string \<Rightarrow> Value option list \<Rightarrow> int \<Rightarrow> error + int list"
where
  "list_indices U nid pv [] idx = Inr []"
| "list_indices U nid pv (elem # s) idx =
     (case nodeID_Find U nid elem of
        Inl e \<Rightarrow> Inl e
      | Inr (value, found) \<Rightarrow>
          (case (if found then
                   (case value of
                      None \<Rightarrow> Inr False
                    | Some v \<Rightarrow>
                        (case RFC7951String U v of
                           Inl e \<Rightarrow> Inl e
                         | Inr str \<Rightarrow> Inr (str = pv)))
                 else Inr False) of
             Inl e \<Rightarrow> Inl e
           | Inr hit \<Rightarrow>
               (case list_indices U nid pv s (idx + 1) of
                  Inl e \<Rightarrow> Inl e
                | Inr ret \<Rightarrow> Inr (if hit then idx # ret else ret))))"

text \<open>\<^verbatim>\<open>posPredicate.computeIdentifier\<close> and \<^verbatim>\<open>exprPredicate.computeIdentifier\<close>.\<close>

definition predicate_computeIdentifier ::
  "unicode \<Rightarrow> predicate \<Rightarrow> Value option \<Rightarrow> error + ident option"
where
  "predicate_computeIdentifier U pred value =
     (case pred of
        PosPredicate p \<Rightarrow> Inr (Some (IdInt (sint p)))
      | ExprPredicate nid pv \<Rightarrow>
          performed (Perform U value
            [HArray (\<lambda>m s.
               case (if id_identifier nid = ''.'' then leaf_indices U pv s 0
                     else list_indices U nid pv s 0) of
                 Inl e \<Rightarrow> Inl e
               | Inr ret \<Rightarrow>
                   Inr (Some (if length ret = 1 then IdInt (ret ! 0) else IdInts ret)))]))"

text \<open>
  \<^verbatim>\<open>predicates.computeIdentifier\<close>. \<open>matched_loop\<close> is its loop over the predicates; the
  set \<^verbatim>\<open>matched\<close> of indices is a list without repetitions.
\<close>

fun matched_loop :: "unicode \<Rightarrow> predicate list \<Rightarrow> Value option \<Rightarrow> int list \<Rightarrow> error + int list" where
  "matched_loop U [] value matched = Inr matched"
| "matched_loop U (pred # rest) value matched =
     (case predicate_computeIdentifier U pred value of
        Inl e \<Rightarrow> Inl e
      | Inr None \<Rightarrow> Inr []
      | Inr (Some (IdInts v)) \<Rightarrow> matched_loop U rest value (filter (\<lambda>i. i \<in> set v) matched)
      | Inr (Some (IdInt v)) \<Rightarrow> matched_loop U rest value (if v \<in> set matched then [v] else [])
      | Inr (Some (IdString x)) \<Rightarrow> matched_loop U rest value matched)"

definition predicates_computeIdentifier ::
  "unicode \<Rightarrow> predicate list \<Rightarrow> Value option \<Rightarrow> error + ident option"
where
  "predicates_computeIdentifier U preds value =
     performed (Perform U value
       [HArray (\<lambda>m s.
          case matched_loop U preds value (map int [0 ..< nat (Array_Length s)]) of
            Inl e \<Rightarrow> Inl e
          | Inr matched \<Rightarrow>
              if length matched > 1 \<or> length matched = 0 then Inr None
              else Inr (Some (IdInt (matched ! 0))))])"

definition computeIdentifier :: "unicode \<Rightarrow> selector \<Rightarrow> Value option \<Rightarrow> error + ident option" where
  "computeIdentifier U sel value =
     (case sel of
        NodeSelector n \<Rightarrow> nodeID_computeIdentifier U n value
      | PredicatesSelector ps \<Rightarrow> predicates_computeIdentifier U ps value)"

text \<open>\<^verbatim>\<open>nodeID.computeIdentifierDefault\<close> and \<^verbatim>\<open>predicates.computeIdentifierDefault\<close>.\<close>

definition computeIdentifierDefault ::
  "unicode \<Rightarrow> selector \<Rightarrow> Value option \<Rightarrow> error + ident option"
where
  "computeIdentifierDefault U sel v =
     (case sel of
        NodeSelector n \<Rightarrow>
          (case nodeID_computeIdentifier U n v of
             Inl e \<Rightarrow> Inl e
           | Inr None \<Rightarrow> Inr (Some (IdString (id_prefix n @ '':'' @ id_identifier n)))
           | Inr (Some ident) \<Rightarrow> Inr (Some ident))
      | PredicatesSelector ps \<Rightarrow>
          (case predicates_computeIdentifier U ps v of
             Inl e \<Rightarrow> Inl e
           | Inr None \<Rightarrow>
               (case Perform U v [HArray (\<lambda>m s. Array_Length s), HInterface (\<lambda>d. 0)] of
                  Inl e \<Rightarrow> Inl e
                | Inr None \<Rightarrow> Inr None
                | Inr (Some n) \<Rightarrow> Inr (Some (IdInt n)))
           | Inr (Some ident) \<Rightarrow> Inr (Some ident)))"

subsection \<open>Match criteria and new nodes\<close>

text \<open>
  \<^verbatim>\<open>exprPredicate.modifyMatchCriteria\<close> and \<^verbatim>\<open>predicates.modifyMatchCriteria\<close>; a
  positional predicate is no \<^verbatim>\<open>matchModifier\<close>. The assertion \<^verbatim>\<open>.(*Value)\<close> panics when
  no handler matched.
\<close>

definition exprPredicate_modifyMatchCriteria ::
  "unicode \<Rightarrow> nodeID \<Rightarrow> string \<Rightarrow> Value option \<Rightarrow> error + Value option"
where
  "exprPredicate_modifyMatchCriteria U nid pv v =
     (if id_identifier nid = ''.'' then Inr v
      else
        (case Perform U v
                [HObject (\<lambda>m s.
                   case Object_Assoc m s (id_identifier nid) (NString pv) of
                     Inl e \<Rightarrow> Inl e
                   | Inr (m', s') \<Rightarrow> Inr (Some (VObject m' s')))] of
           Inl e \<Rightarrow> Inl e
         | Inr None \<Rightarrow> Inl nilNotValue
         | Inr (Some (Inl e)) \<Rightarrow> Inl e
         | Inr (Some (Inr r)) \<Rightarrow> Inr r))"

fun predicates_modifyMatchCriteria ::
  "unicode \<Rightarrow> predicate list \<Rightarrow> Value option \<Rightarrow> error + Value option"
where
  "predicates_modifyMatchCriteria U [] v = Inr v"
| "predicates_modifyMatchCriteria U (PosPredicate n # rest) v =
     predicates_modifyMatchCriteria U rest v"
| "predicates_modifyMatchCriteria U (ExprPredicate nid pv # rest) v =
     (case exprPredicate_modifyMatchCriteria U nid pv v of
        Inl e \<Rightarrow> Inl e
      | Inr v' \<Rightarrow> predicates_modifyMatchCriteria U rest v')"

text \<open>\<^verbatim>\<open>nodeID.createNode\<close> and \<^verbatim>\<open>predicates.createNode\<close>.\<close>

definition createNode :: "selector \<Rightarrow> Value option" where
  "createNode sel =
     (case sel of
        NodeSelector n \<Rightarrow> Some (VObject [] [])
      | PredicatesSelector ps \<Rightarrow> Some (VArray [] []))"

subsection \<open>Trees\<close>

datatype Tree = Tree (root: "Value option")

text \<open>The name of the dynamic type of the data of a value, as a panic prints it.\<close>

fun goTypeName :: "Value \<Rightarrow> string" where
  "goTypeName VNull = ''nil''"
| "goTypeName VEmpty = ''data.empty''"
| "goTypeName (VBool b) = ''bool''"
| "goTypeName (VI32 w) = ''int32''"
| "goTypeName (VU32 w) = ''uint32''"
| "goTypeName (VI64 w) = ''int64''"
| "goTypeName (VU64 w) = ''uint64''"
| "goTypeName (VF64 f) = ''float64''"
| "goTypeName (VString s) = ''string''"
| "goTypeName (VInstanceID i) = ''*data.InstanceID''"
| "goTypeName (VObject m s) = ''*data.Object''"
| "goTypeName (VArray m s) = ''*data.Array''"

text \<open>\<^verbatim>\<open>TreeFromObject(v.AsObject())\<close>: \<^verbatim>\<open>AsObject\<close> asserts \<^verbatim>\<open>val.data.(*Object)\<close>.\<close>

definition TreeFromObject_AsObject :: "Value option \<Rightarrow> error + Tree" where
  "TreeFromObject_AsObject v =
     (case v of
        None \<Rightarrow> Inl nilDereference
      | Some (VObject m s) \<Rightarrow> Inr (Tree (Some (VObject m s)))
      | Some d \<Rightarrow>
          Inl (''interface conversion: interface {} is '' @ goTypeName d @ '', not *data.Object''))"

text \<open>
  The first loop of \<^verbatim>\<open>Tree.assoc\<close>: the queue of values and selectors from the path
  of the identifier up to the root.
\<close>

definition path_measure :: "InstanceID option \<Rightarrow> nat" where
  "path_measure p =
     (case p of
        None \<Rightarrow> 0
      | Some i \<Rightarrow>
          1 + 2 * length (ids i)
            + (if ids i \<noteq> [] \<and> id_predicates (last (ids i)) \<noteq> None then 1 else 0))"

lemma path_measure_path: "path_measure (InstanceID_path i) < path_measure (Some i)"
  by (cases "ids i" rule: rev_cases)
     (auto simp: path_measure_def InstanceID_path_def Let_def)

function assoc_queue ::
  "unicode \<Rightarrow> Value option \<Rightarrow> InstanceID option \<Rightarrow> selector option
     \<Rightarrow> error + (Value option \<times> selector option) list"
where
  "assoc_queue U rt path sel =
     (case path of
        None \<Rightarrow> Inr []
      | Some p \<Rightarrow>
          (case MatchAgainst U p rt of
             Inl e \<Rightarrow> Inl e
           | Inr value \<Rightarrow>
               (case assoc_queue U rt (InstanceID_path p) (InstanceID_selector p) of
                  Inl e \<Rightarrow> Inl e
                | Inr queue \<Rightarrow>
                    Inr ((case sel of
                            None \<Rightarrow> value
                          | Some c \<Rightarrow> if value = None then createNode c else value, sel)
                         # queue))))"
  by pat_completeness auto
termination
  by (relation "measure (\<lambda>(U, rt, path, sel). path_measure path)")
     (simp_all add: path_measure_path)

declare assoc_queue.simps [simp del]

text \<open>
  One step of the second loop of \<^verbatim>\<open>Tree.assoc\<close>, on an entry of the queue and the value
  \<^verbatim>\<open>v\<close> built so far.
\<close>

definition assoc_step ::
  "unicode \<Rightarrow> Value option \<times> selector option \<Rightarrow> Value option \<Rightarrow> error + Value option"
where
  "assoc_step U vs v =
     (case (case snd vs of
              Some (PredicatesSelector ps) \<Rightarrow> predicates_modifyMatchCriteria U ps v
            | _ \<Rightarrow> Inr v) of
        Inl e \<Rightarrow> Inl e
      | Inr v' \<Rightarrow>
          (case snd vs of
             None \<Rightarrow> Inl nilDereference
           | Some sel \<Rightarrow>
               (case computeIdentifierDefault U sel (fst vs) of
                  Inl e \<Rightarrow> Inl e
                | Inr ident \<Rightarrow>
                    (case Perform U (fst vs)
                            [HObject (\<lambda>m s.
                               case assertString ident of
                                 Inl e \<Rightarrow> Inl e
                               | Inr k \<Rightarrow>
                                   (case Object_Assoc m s k (NValue v') of
                                      Inl e \<Rightarrow> Inl e
                                    | Inr (m', s') \<Rightarrow> Inr (Some (VObject m' s')))),
                             HArray (\<lambda>m s.
                               case assertInt ident of
                                 Inl e \<Rightarrow> Inl e
                               | Inr n \<Rightarrow>
                                   (case Array_Assoc m s n (NValue v') of
                                      Inl e \<Rightarrow> Inl e
                                    | Inr (m', s') \<Rightarrow> Inr (Some (VArray m' s'))))] of
                       Inl e \<Rightarrow> Inl e
                     | Inr None \<Rightarrow> Inl nilNotValue
                     | Inr (Some (Inl e)) \<Rightarrow> Inl e
                     | Inr (Some (Inr r)) \<Rightarrow> Inr r))))"

fun assoc_process ::
  "unicode \<Rightarrow> (Value option \<times> selector option) list \<Rightarrow> Value option \<Rightarrow> error + Value option"
where
  "assoc_process U [] v = Inr v"
| "assoc_process U (vs # queue) v =
     (case assoc_step U vs v of
        Inl e \<Rightarrow> Inl e
      | Inr v' \<Rightarrow> assoc_process U queue v')"

text \<open>\<^verbatim>\<open>Tree.assoc\<close>, \<^verbatim>\<open>Tree.at\<close> and \<^verbatim>\<open>Tree.delete\<close>, on a pointer to an identifier.\<close>

definition Tree_assoc :: "unicode \<Rightarrow> Tree \<Rightarrow> InstanceID option \<Rightarrow> Value option \<Rightarrow> error + Tree" where
  "Tree_assoc U t i v =
     (case i of
        None \<Rightarrow> Inl nilDereference
      | Some i' \<Rightarrow>
          (case assoc_queue U (root t) (InstanceID_path i') (InstanceID_selector i') of
             Inl e \<Rightarrow> Inl e
           | Inr queue \<Rightarrow>
               (case assoc_process U queue v of
                  Inl e \<Rightarrow> Inl e
                | Inr v' \<Rightarrow> TreeFromObject_AsObject v')))"

definition Tree_at :: "unicode \<Rightarrow> Tree \<Rightarrow> InstanceID option \<Rightarrow> error + Value option" where
  "Tree_at U t i =
     (case i of None \<Rightarrow> Inl nilDereference | Some i' \<Rightarrow> MatchAgainst U i' (root t))"

definition Tree_delete :: "unicode \<Rightarrow> Tree \<Rightarrow> InstanceID option \<Rightarrow> error + Tree" where
  "Tree_delete U t i =
     (case i of
        None \<Rightarrow> Inl nilDereference
      | Some i' \<Rightarrow>
          (case InstanceID_Find U i' (root t) of
             Inl e \<Rightarrow> Inl e
           | Inr (x, found) \<Rightarrow>
               if \<not> found then Inr t
               else
                 (case Tree_at U t (InstanceID_path i') of
                    Inl e \<Rightarrow> Inl e
                  | Inr v \<Rightarrow>
                      (case InstanceID_selector i' of
                         None \<Rightarrow> Inl nilDereference
                       | Some sel \<Rightarrow>
                           (case computeIdentifier U sel v of
                              Inl e \<Rightarrow> Inl e
                            | Inr ident \<Rightarrow>
                                (case Perform U v
                                        [HObject (\<lambda>m s.
                                           case assertString ident of
                                             Inl e \<Rightarrow> Inl e
                                           | Inr k \<Rightarrow>
                                               Inr (case Object_Delete m s k of
                                                      (m', s') \<Rightarrow> VObject m' s')),
                                         HArray (\<lambda>m s.
                                           case assertInt ident of
                                             Inl e \<Rightarrow> Inl e
                                           | Inr n \<Rightarrow>
                                               Inr (case Array_Delete m s n of
                                                      (m', s') \<Rightarrow> VArray m' s'))] of
                                   Inl e \<Rightarrow> Inl e
                                 | Inr None \<Rightarrow> Inl nilNotValue
                                 | Inr (Some (Inl e)) \<Rightarrow> Inl e
                                 | Inr (Some (Inr r)) \<Rightarrow>
                                     Tree_assoc U t (InstanceID_path i') (Some r)))))))"

subsection \<open>Edit entries\<close>

datatype EditAction = EditAssoc | EditDelete | EditMerge | EditOther string

record EditEntry =
  Action :: EditAction
  Path :: "InstanceID option"
  Value :: "Value option"

record EditOperation =
  Actions :: "EditEntry list"

subsection \<open>Differences\<close>

text \<open>
  \<^verbatim>\<open>Value.diff\<close> with \<^verbatim>\<open>Object.diff\<close> and \<^verbatim>\<open>Array.diff\<close>. \<open>Object_diff_loop\<close> and
  \<open>Array_diff_loop\<close> are the first \<^verbatim>\<open>Range\<close> of each, over the members of the old
  container; \<open>Object_diff_new\<close> and \<open>Array_diff_new\<close> are the second, over the members
  of the other one. A leaf compares with \<^verbatim>\<open>equal(val, new)\<close>, which reads \<^verbatim>\<open>new.data\<close>.
\<close>

fun Object_diff_new ::
  "unicode \<Rightarrow> string \<Rightarrow> (string \<times> Value) list \<Rightarrow> (string \<times> Value) list \<Rightarrow> InstanceID
     \<Rightarrow> error + EditEntry list"
where
  "Object_diff_new U m s [] path = Inr []"
| "Object_diff_new U m s ((k, v) # rest) path =
     (if Object_Contains m s k then Object_diff_new U m s rest path
      else
        (case InstanceID_push U path k of
           Inl e \<Rightarrow> Inl e
         | Inr p \<Rightarrow>
             (case Object_diff_new U m s rest path of
                Inl e \<Rightarrow> Inl e
              | Inr out \<Rightarrow>
                  Inr (\<lparr>Action = EditAssoc, Path = Some p, Value = Some v\<rparr> # out))))"

fun Array_diff_new ::
  "Value option list \<Rightarrow> Value option list \<Rightarrow> int \<Rightarrow> InstanceID \<Rightarrow> EditEntry list"
where
  "Array_diff_new s [] i path = []"
| "Array_diff_new s (v # rest) i path =
     (if Array_Contains s i then Array_diff_new s rest (i + 1) path
      else \<lparr>Action = EditAssoc, Path = Some (addPosPredicate path i), Value = v\<rparr>
             # Array_diff_new s rest (i + 1) path)"

function Value_diff ::
    "unicode \<Rightarrow> Value \<Rightarrow> Value option \<Rightarrow> InstanceID \<Rightarrow> error + EditEntry list"
  and Object_diff_loop ::
    "unicode \<Rightarrow> (string \<times> Value) list \<Rightarrow> string \<Rightarrow> (string \<times> Value) list \<Rightarrow> InstanceID
       \<Rightarrow> error + EditEntry list"
  and Array_diff_loop ::
    "unicode \<Rightarrow> Value option list \<Rightarrow> int \<Rightarrow> Value option list \<Rightarrow> InstanceID
       \<Rightarrow> error + EditEntry list"
where
  "Value_diff U val new path =
     (case val of
        VObject m s \<Rightarrow>
          (case Perform U new
                  [HObject (\<lambda>om os.
                     case Object_diff_loop U s om os path of
                       Inl e \<Rightarrow> Inl e
                     | Inr out \<Rightarrow>
                         (case Object_diff_new U m s os path of
                            Inl e \<Rightarrow> Inl e
                          | Inr out' \<Rightarrow> Inr (out @ out'))),
                   HInterface (\<lambda>other.
                     Inr [\<lparr>Action = EditAssoc, Path = Some path, Value = new\<rparr>])] of
             Inl e \<Rightarrow> Inl e
           | Inr None \<Rightarrow> Inr []
           | Inr (Some r) \<Rightarrow> r)
      | VArray m s \<Rightarrow>
          (case Perform U new
                  [HArray (\<lambda>om os.
                     case Array_diff_loop U s 0 os path of
                       Inl e \<Rightarrow> Inl e
                     | Inr out \<Rightarrow> Inr (out @ Array_diff_new s os 0 path)),
                   HInterface (\<lambda>other.
                     Inr [\<lparr>Action = EditAssoc, Path = Some path, Value = new\<rparr>])] of
             Inl e \<Rightarrow> Inl e
           | Inr None \<Rightarrow> Inr []
           | Inr (Some r) \<Rightarrow> r)
      | _ \<Rightarrow>
          (case new of
             None \<Rightarrow> Inl nilDereference
           | Some n \<Rightarrow>
               if equal val n then Inr []
               else Inr [\<lparr>Action = EditAssoc, Path = Some path, Value = new\<rparr>]))"
| "Object_diff_loop U [] om os path = Inr []"
| "Object_diff_loop U ((k, v) # rest) om os path =
     (case (if Object_Contains om os k
            then (case InstanceID_push U path k of
                    Inl e \<Rightarrow> Inl e
                  | Inr p \<Rightarrow> Value_diff U v (Object_At om os k) p)
            else (case InstanceID_push U path k of
                    Inl e \<Rightarrow> Inl e
                  | Inr p \<Rightarrow> Inr [\<lparr>Action = EditDelete, Path = Some p, Value = None\<rparr>])) of
        Inl e \<Rightarrow> Inl e
      | Inr out \<Rightarrow>
          (case Object_diff_loop U rest om os path of
             Inl e \<Rightarrow> Inl e
           | Inr out' \<Rightarrow> Inr (out @ out')))"
| "Array_diff_loop U [] i os path = Inr []"
| "Array_diff_loop U (slot # rest) i os path =
     (case (if Array_Contains os i
            then (case Array_At os i of
                    Inl e \<Rightarrow> Inl e
                  | Inr nv \<Rightarrow>
                      (case slot of
                         None \<Rightarrow> Inl nilDereference
                       | Some v \<Rightarrow> Value_diff U v nv (addPosPredicate path i)))
            else Inr [\<lparr>Action = EditDelete, Path = Some (addPosPredicate path i),
                       Value = None\<rparr>]) of
        Inl e \<Rightarrow> Inl e
      | Inr out \<Rightarrow>
          (case Array_diff_loop U rest (i + 1) os path of
             Inl e \<Rightarrow> Inl e
           | Inr out' \<Rightarrow> Inr (out @ out')))"
  by pat_completeness auto
termination
  by (relation "measure (\<lambda>x. case x of
          Inl (U, val, new, path) \<Rightarrow> 2 * size val
        | Inr (Inl (U, entries, om, os, path)) \<Rightarrow>
            2 * size_list (size_prod (\<lambda>x. 0) size) entries + 1
        | Inr (Inr (U, slots, i, os, path)) \<Rightarrow>
            2 * size_list (size_option size) slots + 1)")
     auto

declare Value_diff.simps [simp del]

text \<open>\<^verbatim>\<open>Tree.Diff\<close>, with the empty identifier \<^verbatim>\<open>&InstanceID{}\<close> as the path of the root.\<close>

definition Tree_Diff :: "unicode \<Rightarrow> Tree \<Rightarrow> Tree \<Rightarrow> error + EditOperation" where
  "Tree_Diff U t other =
     (case root t of
        None \<Rightarrow> Inl nilDereference
      | Some val \<Rightarrow>
          (case Value_diff U val (root other) (InstanceID []) of
             Inl e \<Rightarrow> Inl e
           | Inr out \<Rightarrow> Inr \<lparr>Actions = out\<rparr>))"

subsection \<open>Merging\<close>

lemma Perform_Object_cong [fundef_cong]:
  assumes "new = new'"
    and "\<And>m s. new' = Some (VObject m s) \<Longrightarrow> f m s = f' m s"
    and "g = g'"
  shows "Perform U new [HObject f, HInterface g] = Perform U new' [HObject f', HInterface g']"
proof (cases new')
  case None
  then show ?thesis using assms by (simp add: Perform_def)
next
  case (Some v)
  then show ?thesis using assms
    by (cases v)
       (simp_all add: Perform_def Perform_step_def Apply_def AssignableTo_def
          canConvertNumeric_def)
qed

lemma Perform_Array_cong [fundef_cong]:
  assumes "new = new'"
    and "\<And>m s. new' = Some (VArray m s) \<Longrightarrow> f m s = f' m s"
    and "g = g'"
  shows "Perform U new [HArray f, HInterface g] = Perform U new' [HArray f', HInterface g']"
proof (cases new')
  case None
  then show ?thesis using assms by (simp add: Perform_def)
next
  case (Some v)
  then show ?thesis using assms
    by (cases v)
       (simp_all add: Perform_def Perform_step_def Apply_def AssignableTo_def
          canConvertNumeric_def)
qed

lemma size_Object_At:
  "Object_At m s k = Some v \<Longrightarrow> size v < Suc (size_list (size_prod (\<lambda>x. 0) size) s)"
  by (auto simp: Object_At_def store_Find_def dest!: map_of_SomeD size_store_entry)

lemma size_Array_At:
  assumes "Array_At s i = Inr (Some v)"
  shows "size v < Suc (size_list (size_option size) s)"
proof -
  from assms have "nat i < length s" "s ! nat i = Some v"
    by (auto simp: Array_At_def Array_Length_def split: if_splits option.splits)
  then have "Some v \<in> set s" by (metis nth_mem)
  then show ?thesis by (rule size_slot_entry)
qed

text \<open>
  The second \<^verbatim>\<open>Range\<close> of \<^verbatim>\<open>Object.merge\<close> and of \<^verbatim>\<open>Array.merge\<close>, over the members of
  the new container: what the old one lacks is added.
\<close>

fun Object_merge_new ::
  "string \<Rightarrow> (string \<times> Value) list \<Rightarrow> (string \<times> Value) list \<Rightarrow> error + (string \<times> Value) list"
where
  "Object_merge_new m [] store = Inr store"
| "Object_merge_new m ((key, val) # rest) store =
     (case Object_adaptValue m key (Some val) of
        Inl e \<Rightarrow> Inl e
      | Inr (k, v) \<Rightarrow>
          Object_merge_new m rest (if \<not> store_Contains store k then store_Assoc k v store else store))"

fun Array_merge_new ::
  "string \<Rightarrow> Value option list \<Rightarrow> Value option list \<Rightarrow> int \<Rightarrow> Value option list
     \<Rightarrow> error + Value option list"
where
  "Array_merge_new m s [] i store = Inr store"
| "Array_merge_new m s (v # rest) i store =
     (if \<not> Array_Contains s i
      then (case Array_adaptValue m v of
              Inl e \<Rightarrow> Inl e
            | Inr v' \<Rightarrow> Array_merge_new m s rest (i + 1) (store @ [Some v']))
      else Array_merge_new m s rest (i + 1) store)"

text \<open>
  \<^verbatim>\<open>Value.Merge\<close> with \<^verbatim>\<open>Object.merge\<close> and \<^verbatim>\<open>Array.merge\<close>. \<open>Object_merge_loop\<close> and
  \<open>Array_merge_loop\<close> are the first \<^verbatim>\<open>Range\<close> of each, over the members of the old
  container, with the transient store as the last argument.
\<close>

function Value_Merge :: "unicode \<Rightarrow> Value \<Rightarrow> Value option \<Rightarrow> error + Value option"
  and Object_merge_loop ::
    "unicode \<Rightarrow> string \<Rightarrow> (string \<times> Value) list \<Rightarrow> string \<Rightarrow> (string \<times> Value) list
       \<Rightarrow> (string \<times> Value) list \<Rightarrow> error + (string \<times> Value) list"
  and Array_merge_loop ::
    "unicode \<Rightarrow> string \<Rightarrow> Value option list \<Rightarrow> int \<Rightarrow> Value option list
       \<Rightarrow> Value option list \<Rightarrow> error + Value option list"
where
  "Value_Merge U val new =
     (case val of
        VObject m s \<Rightarrow>
          (case Perform U new
                  [HObject (\<lambda>nm ns.
                     case Object_merge_loop U m s nm ns s of
                       Inl e \<Rightarrow> Inl e
                     | Inr store \<Rightarrow>
                         (case Object_merge_new m ns store of
                            Inl e \<Rightarrow> Inl e
                          | Inr store' \<Rightarrow> Inr (Some (VObject m store')))),
                   HInterface (\<lambda>d. Inr (Some (VObject m s)))] of
             Inl e \<Rightarrow> Inl e
           | Inr None \<Rightarrow> Inl nilNotValue
           | Inr (Some r) \<Rightarrow> r)
      | VArray m s \<Rightarrow>
          (case Perform U new
                  [HArray (\<lambda>nm ns.
                     case Array_merge_loop U m s 0 ns s of
                       Inl e \<Rightarrow> Inl e
                     | Inr store \<Rightarrow>
                         (case Array_merge_new m s ns 0 store of
                            Inl e \<Rightarrow> Inl e
                          | Inr store' \<Rightarrow> Inr (Some (VArray m store')))),
                   HInterface (\<lambda>d. Inr (Some (VArray m s)))] of
             Inl e \<Rightarrow> Inl e
           | Inr None \<Rightarrow> Inl nilNotValue
           | Inr (Some r) \<Rightarrow> r)
      | _ \<Rightarrow> Inr new)"
| "Object_merge_loop U m [] nm ns store = Inr store"
| "Object_merge_loop U m ((key, val) # rest) nm ns store =
     (case Object_adaptValue m key (Some val) of
        Inl e \<Rightarrow> Inl e
      | Inr (k, v) \<Rightarrow>
          if Object_Contains nm ns k then
            (case Value_Merge U v (Object_At nm ns k) of
               Inl e \<Rightarrow> Inl e
             | Inr None \<Rightarrow> Inl nilDereference
             | Inr (Some r) \<Rightarrow> Object_merge_loop U m rest nm ns (store_Assoc k r store))
          else Object_merge_loop U m rest nm ns store)"
| "Array_merge_loop U m [] i ns store = Inr store"
| "Array_merge_loop U m (slot # rest) i ns store =
     (if Array_Contains ns i then
        (case Array_At ns i of
           Inl e \<Rightarrow> Inl e
         | Inr nv \<Rightarrow>
             (case slot of
                None \<Rightarrow> Inl nilDereference
              | Some v \<Rightarrow>
                  (case Value_Merge U v nv of
                     Inl e \<Rightarrow> Inl e
                   | Inr r \<Rightarrow>
                       (case Array_adaptValue m r of
                          Inl e \<Rightarrow> Inl e
                        | Inr r' \<Rightarrow>
                            Array_merge_loop U m rest (i + 1) ns (store[nat i := Some r'])))))
      else Array_merge_loop U m rest (i + 1) ns store)"
  by pat_completeness auto
termination
  by (relation "inv_image (less_than <*lex*> less_than) (\<lambda>x. case x of
          Inl (U, val, new) \<Rightarrow> (case new of None \<Rightarrow> 0 | Some n \<Rightarrow> 2 * size n + 2, 0)
        | Inr (Inl (U, m, entries, nm, ns, store)) \<Rightarrow>
            (2 * size_list (size_prod (\<lambda>x. 0) size) ns + 3, length entries)
        | Inr (Inr (U, m, slots, i, ns, store)) \<Rightarrow>
            (2 * size_list (size_option size) ns + 3, length slots))")
     (auto dest: size_Object_At size_Array_At split: option.splits)

declare Value_Merge.simps [simp del]

subsection \<open>Edits\<close>

text \<open>
  The function that \<^verbatim>\<open>EditEntry.eval\<close> returns for an entry, applied to a tree:
  \<^verbatim>\<open>evalAssoc\<close>, \<^verbatim>\<open>evalDelete\<close> and \<^verbatim>\<open>evalMerge\<close>.
\<close>

definition EditEntry_apply :: "unicode \<Rightarrow> EditEntry \<Rightarrow> Tree \<Rightarrow> error + Tree" where
  "EditEntry_apply U e t =
     (case Action e of
        EditAssoc \<Rightarrow> Tree_assoc U t (Path e) (Value e)
      | EditDelete \<Rightarrow> Tree_delete U t (Path e)
      | EditMerge \<Rightarrow>
          (case Tree_at U t (Path e) of
             Inl err \<Rightarrow> Inl err
           | Inr None \<Rightarrow> Inl nilDereference
           | Inr (Some val) \<Rightarrow>
               (case Value_Merge U val (Value e) of
                  Inl err \<Rightarrow> Inl err
                | Inr val' \<Rightarrow> Tree_assoc U t (Path e) val'))
      | EditOther a \<Rightarrow> Inl (''unknown edit-action '' @ a))"

fun apply_actions :: "unicode \<Rightarrow> EditEntry list \<Rightarrow> Tree \<Rightarrow> error + Tree" where
  "apply_actions U [] t = Inr t"
| "apply_actions U (e # rest) t =
     (case EditEntry_apply U e t of
        Inl err \<Rightarrow> Inl err
      | Inr t' \<Rightarrow> apply_actions U rest t')"

text \<open>
  \<^verbatim>\<open>Tree.Edit\<close>: \<^verbatim>\<open>EditOperation.eval\<close> first turns every entry into a function, which
  panics on an unknown action, and then applies the functions in order.
\<close>

definition unknown_action :: "EditEntry list \<Rightarrow> string option" where
  "unknown_action es =
     (case filter (\<lambda>e. case Action e of EditOther a \<Rightarrow> True | _ \<Rightarrow> False) es of
        [] \<Rightarrow> None
      | e # rest \<Rightarrow> (case Action e of EditOther a \<Rightarrow> Some a | _ \<Rightarrow> None))"

definition Tree_Edit :: "unicode \<Rightarrow> Tree \<Rightarrow> EditOperation \<Rightarrow> error + Tree" where
  "Tree_Edit U t edit =
     (case unknown_action (Actions edit) of
        Some a \<Rightarrow> Inl (''unknown edit-action '' @ a)
      | None \<Rightarrow> apply_actions U (Actions edit) t)"

text \<open>
  \<^verbatim>\<open>Tree.Equal\<close> on another tree is \<^verbatim>\<open>equal(t.Root(), ot.Root())\<close>, that is
  \<^verbatim>\<open>Value.Equal\<close>, which reads the data of both roots unless both are \<^verbatim>\<open>nil\<close>.
\<close>

definition Tree_Equal :: "Tree \<Rightarrow> Tree \<Rightarrow> error + bool" where
  "Tree_Equal t ot =
     (case (root t, root ot) of
        (None, None) \<Rightarrow> Inr True
      | (Some v, Some ov) \<Rightarrow> Inr (equal v ov)
      | _ \<Rightarrow> Inl nilDereference)"

subsection \<open>Three trees\<close>

text \<open>The trees \<open>{"m:l":[1,2,3,4]}\<close>, \<open>{"m:l":[1,2]}\<close> and \<open>{"m:l":[1,2,4]}\<close>.\<close>

definition tree_1234 :: Tree where
  "tree_1234 = Tree (Some (VObject []
     [(''m:l'', VArray ''m'' [Some (VU32 1), Some (VU32 2), Some (VU32 3), Some (VU32 4)])]))"

definition tree_12 :: Tree where
  "tree_12 = Tree (Some (VObject [] [(''m:l'', VArray ''m'' [Some (VU32 1), Some (VU32 2)])]))"

definition tree_124 :: Tree where
  "tree_124 = Tree (Some (VObject []
     [(''m:l'', VArray ''m'' [Some (VU32 1), Some (VU32 2), Some (VU32 4)])]))"

section \<open>Properties of values\<close>

lemma equal_Empty: "equal v VEmpty \<longleftrightarrow> v = VEmpty"
  by (cases v) (simp_all add: equal.simps)

lemma IsEmpty_iff: "IsEmpty v \<longleftrightarrow> v = VEmpty"
  by (simp add: IsEmpty_def Empty_def equal_Empty)

subsection \<open>Signed words\<close>

lemma sint_nonneg_iff:
  fixes w :: "'a::len word"
  shows "0 \<le> sint w \<longleftrightarrow> uint w < 2 ^ (LENGTH('a) - Suc 0)"
proof
  assume nn: "0 \<le> sint w"
  have lt: "sint w < 2 ^ (LENGTH('a) - Suc 0)" by (rule sint_less)
  have "(2::int) ^ (LENGTH('a) - Suc 0) \<le> 2 ^ LENGTH('a)" by (rule power_increasing) simp_all
  with lt have "sint w < 2 ^ LENGTH('a)" by linarith
  with nn have "take_bit LENGTH('a) (sint w) = sint w" by (simp add: take_bit_int_eq_self)
  then have "uint w = sint w" by (simp add: uint_sint)
  with lt show "uint w < 2 ^ (LENGTH('a) - Suc 0)" by simp
next
  assume lt: "uint w < 2 ^ (LENGTH('a) - Suc 0)"
  have "0 \<le> uint w" by simp
  moreover have "- (2 ^ (LENGTH('a) - Suc 0)) \<le> (0::int)" by simp
  ultimately have "- (2 ^ (LENGTH('a) - Suc 0)) \<le> uint w" by linarith
  then have "signed_take_bit (LENGTH('a) - Suc 0) (uint w) = uint w"
    using lt by (rule signed_take_bit_int_eq_self)
  then show "0 \<le> sint w" by (simp add: sint_uint)
qed


lemma sint_nonneg_64: "0 \<le> sint (w::64 word) \<longleftrightarrow> w \<le> 9223372036854775807"
  by (simp add: sint_nonneg_iff word_le_def) arith



subsection \<open>Canonical integer variants\<close>






text \<open>
  The platform-sized \<^verbatim>\<open>int\<close> is truncated to 32 bits before the variant is chosen.
\<close>

lemma ValueNew_int:
  "ValueNew (NInt d) =
     Inr (Some (if sint (scast d :: 32 word) < 0 then VI32 (scast d) else VU32 (scast d)))"
  by (auto simp: inferInt32Type_def canConvertNumeric_def)

subsection \<open>Empty as a boolean\<close>

text \<open>
  Claim C10. \<^verbatim>\<open>AsBoolean\<close>, \<^verbatim>\<open>IsBoolean\<close> and \<^verbatim>\<open>ToBoolean\<close> return true on the
  \<^verbatim>\<open>Empty\<close> value, which is not a \<^verbatim>\<open>bool\<close>; \<^verbatim>\<open>ToBoolean\<close> does so whatever default
  is supplied.
\<close>

theorem Empty_is_boolean_true:
  "AsBoolean Empty = Inr True
 \<and> IsBoolean Empty
 \<and> ToBoolean Empty defaultVal = True
 \<and> Empty \<noteq> VBool b"
  by (simp add: AsBoolean_def IsBoolean_def ToBoolean_def IsEmpty_iff Empty_def)

theorem Empty_is_boolean_true_witness:
  "AsBoolean Empty = Inr True \<and> IsBoolean Empty \<and> ToBoolean Empty [False] = True
 \<and> Empty \<noteq> VBool True"
  using Empty_is_boolean_true [of "[False]" True] by simp

subsection \<open>Quoted scalars with a decimal point\<close>

lemma not_isDigit_dot: "\<not> isDigit CHR ''.''"
  by (simp add: isDigit_def)

lemma ParseUint_dot: "CHR ''.'' \<in> set s \<Longrightarrow> ParseUint s bits = None"
  using not_isDigit_dot by (auto simp: ParseUint_def list_all_iff)

lemma ParseInt_dot: "CHR ''.'' \<in> set s \<Longrightarrow> ParseInt s bits = None"
proof -
  assume d: "CHR ''.'' \<in> set s"
  then have ne: "s \<noteq> []" by auto
  then obtain c cs where s: "s = c # cs" by (cases s) auto
  have "CHR ''.'' \<in> set (if hd s = CHR ''+'' \<or> hd s = CHR ''-'' then tl s else s)"
    using d s by auto
  then show ?thesis
    using ne by (simp add: ParseInt_def Let_def ParseUint_dot)
qed

text \<open>
  Whatever \<^verbatim>\<open>strconv.ParseFloat\<close> returns, a content with a decimal point is stored as
  the raw string: the integer parse that follows the float parse fails on the point and
  overwrites the float.
\<close>

lemma unmarshalQuoted_dot:
  "Contains item CHR ''.'' \<Longrightarrow> unmarshalQuoted parseFloat item = VString item"
proof -
  assume c: "Contains item CHR ''.''"
  then have d: "CHR ''.'' \<in> set item" by (simp add: Contains_def)
  then have ne: "item \<noteq> []" by auto
  have t: "item ! 0 = CHR ''+'' \<Longrightarrow> CHR ''.'' \<in> set (tl item)"
    using d ne by (cases item) auto
  show ?thesis
    using c d ne t
    by (auto simp: unmarshalQuoted_def Let_def ParseInt_dot ParseUint_dot
        split: option.splits sum.splits)
qed

lemma unmarshalQuoted_never_float: "unmarshalQuoted parseFloat item \<noteq> VF64 f"
  by (cases "Contains item CHR ''.''")
     (auto simp: unmarshalQuoted_dot unmarshalQuoted_def Let_def split: option.splits)

text \<open>
  Claim C3, at the contents \<^verbatim>\<open>2.1\<close>, \<^verbatim>\<open>-2.4\<close> and \<^verbatim>\<open>+2.3\<close>, each of which begins with a
  digit (after an optional sign) and contains a point: the value decoded from the quoted
  scalar holds the raw string, not a \<^verbatim>\<open>float64\<close>, for every behaviour of
  \<^verbatim>\<open>strconv.ParseFloat\<close>.
\<close>

theorem unmarshalQuoted_float_is_string:
  "unmarshalQuoted parseFloat ''2.1'' = VString ''2.1''
 \<and> unmarshalQuoted parseFloat ''-2.4'' = VString ''-2.4''
 \<and> unmarshalQuoted parseFloat ''+2.3'' = VString ''+2.3''"
  by (simp add: unmarshalQuoted_dot Contains_def)

subsection \<open>Dispatch on the null value\<close>

text \<open>
  Claim C5, at the value whose data is \<^verbatim>\<open>nil\<close>: a handler taking \<^verbatim>\<open>*Value\<close> and a
  handler taking \<^verbatim>\<open>String\<close> do not match it; of the three catch-all input types only
  \<^verbatim>\<open>interface{}\<close> does.
\<close>

theorem Perform_null_value:
  "Perform U (Some VNull) [HValue f] = Inr None
 \<and> Perform U (Some VNull) [HString g] = Inr None
 \<and> Perform U (Some VNull) [HValue f, HString g, HInterface k] = Inr (Some (k VNull))"
  by (simp add: Perform_def Perform_step_def Apply_def)

section \<open>Properties of lookup\<close>

subsection \<open>Dispatch on arrays and catch-all handlers\<close>

lemma Perform_Array [simp]:
  "Perform U (Some (VArray m s)) (HArray f # fns) = Inr (Some (f m s))"
  by (simp add: Perform_def Perform_step_def AssignableTo_def Apply_def)


lemma Perform_nil [simp]: "Perform U None fns = Inr None"
  by (simp add: Perform_def)

lemma Perform_empty [simp]: "Perform U v [] = Inr None"
  by (cases v) (simp_all add: Perform_def)




subsection \<open>Positional predicates and the final selection\<close>






subsection \<open>The loop of \<^verbatim>\<open>predicates.Find\<close>\<close>










section \<open>Properties of arrays\<close>

text \<open>
  What \<^verbatim>\<open>Array.Assoc\<close> does at an index from the length on: the elements below the
  length are kept, every index between the length and the new one holds the untyped
  \<^verbatim>\<open>nil\<close>, and the new index holds the value, moved to the module of the array.
\<close>

lemma Array_Assoc_beyond:
  assumes "Array_Length s \<le> i" and "ValueNew value = Inr (Some val)" and "belongsTo val m = Inr v"
  shows "Array_Assoc m s i value = Inr (m, s @ replicate (nat (i - Array_Length s)) None @ [Some v])"
proof -
  have i: "0 \<le> i" "nat i = length s + nat (i - int (length s))"
    using assms(1) by (auto simp: Array_Length_def)
  have r: "replicate (nat (i + 1 - int (length s))) None
      = replicate (nat (i - int (length s))) (None :: Value option) @ [None]"
  proof -
    have "nat (i + 1 - int (length s)) = Suc (nat (i - int (length s)))"
      using assms(1) by (simp add: Array_Length_def)
    then show ?thesis by (simp add: replicate_append_same)
  qed
  have "(s @ replicate (nat (i - int (length s))) None @ [None]) [nat i := Some v]
      = s @ replicate (nat (i - int (length s))) None @ [Some v]"
    by (subst i(2)) (simp add: list_update_append)
  then show ?thesis
    using assms i(1) by (simp add: Array_Assoc_def Array_adaptValue_def Let_def r Array_Length_def)
qed

text \<open>
  Claim C9, at the empty array, index 1 and value 10: the array returned by
  \<^verbatim>\<open>ArrayNew().Assoc(1, 10)\<close> has length 2 and holds 10 at index 1, but index 0 holds
  the untyped \<^verbatim>\<open>nil\<close>, not a \<^verbatim>\<open>*Value\<close> whose data is null, and \<^verbatim>\<open>At(0)\<close> panics on it.
  \<^verbatim>\<open>Append(nil)\<close>, by contrast, stores a null-valued \<^verbatim>\<open>*Value\<close> that \<^verbatim>\<open>At\<close> returns.
\<close>

theorem Array_Assoc_pads_with_nil:
  "Array_Assoc [] [] 1 (NInt 10) = Inr ([], [None, Some (VU32 10)])
 \<and> Array_At [None, Some (VU32 10)] 0 = Inl nilNotValue
 \<and> Array_Append [] [] NNil = Inr ([], [Some VNull])
 \<and> Array_At [Some VNull] 0 = Inr (Some VNull)"
  by (simp add: Array_Assoc_def Array_Append_def Array_At_def Array_adaptValue_def Array_Length_def
      inferInt32Type_def canConvertNumeric_def numeral_2_eq_2)

section \<open>Properties of the parser\<close>

lemma runes_non_ascii: "runes [CHR 0xC3, CHR 0xA9] = [233]"
  by (simp add: runes.simps DecodeRune_def decode2_def byte_def in_range_def)

lemma checkIDPart_m: "checkIDPart U ''m'' = None"
  by (simp add: checkIDPart_def runes.simps DecodeRune_def byte_def IsLetter_def)

lemma checkIDPart_non_ascii: "checkIDPart U [CHR 0xC3, CHR 0xA9] = None"
  by (simp add: checkIDPart_def runes_non_ascii IsLetter_def)

text \<open>
  C6: every input of one of the malformed shapes, among them an identifier with a
  character outside the grammar, makes \<^verbatim>\<open>InstanceIDNew\<close> fail. The grammar that the
  source documents has \<open>ALPHA = %x41-5A / %x61-7A\<close>, but \<^verbatim>\<open>checkIDPart\<close> asks
  \<^verbatim>\<open>unicode.IsLetter\<close>: the input \<open>/m:\<close> followed by the two bytes \<open>C3 A9\<close> (the UTF-8
  encoding of \<open>U+00E9\<close>, a letter of Latin-1) is parsed without failure, whatever the range
  tables above \<open>U+00FF\<close> are.
\<close>

theorem InstanceIDNew_accepts_non_ascii_letter:
  "InstanceIDNew U (''/m:'' @ [CHR 0xC3, CHR 0xA9]) =
     Inr (InstanceID [NodeID ''m'' [CHR 0xC3, CHR 0xA9] False None])"
  by (simp add: InstanceIDNew_def InstanceID_parse_def InstanceID_parse_body_def
        getNodeIDStrings_def nodeID_parse.simps nodeID_split_def SplitN2_def checkIDPart_m
        checkIDPart_non_ascii)

subsection \<open>Reading back the string form\<close>











lemma not_idbyte [simp]:
  "\<not> idbyte CHR ''/''" "\<not> idbyte CHR '':''" "\<not> idbyte CHR ''[''" "\<not> idbyte CHR '']''"
  "\<not> idbyte CHR ''=''" "\<not> idbyte CHR 0x27" "\<not> idbyte CHR 0x22" "\<not> idbyte CHR 0x20"
  "\<not> idbyte CHR 0x09"
  by (simp_all add: idbyte_def byte_def)












































lemma idbyte_plain:
  "\<forall>c\<in>set s. idbyte c \<Longrightarrow>
   \<forall>c\<in>set s. c \<noteq> CHR 0x27 \<and> c \<noteq> CHR 0x22 \<and> c \<noteq> CHR ''/''"
  by auto





lemma guarded_Nil [simp]: "guarded []"
  by (simp add: guarded_def)































section \<open>Properties of trees\<close>

text \<open>
  C2: applying to a tree \<open>a\<close> the edit operation \<^verbatim>\<open>a.Diff(b)\<close> yields a tree equal to \<open>b\<close>.
  For \<open>a = {"m:l":[1,2,3,4]}\<close> and \<open>b = {"m:l":[1,2]}\<close>, \<^verbatim>\<open>Array.diff\<close> emits the deletions
  of \<open>/m:l[2]\<close> and \<open>/m:l[3]\<close> in this order. The first one shifts the array to \<open>[1,2,4]\<close>,
  where index 3 no longer exists, so the second one finds nothing and leaves the tree as
  it is: the result is \<open>{"m:l":[1,2,4]}\<close>, which is not equal to \<open>b\<close>.
\<close>

theorem Diff_Edit_shrinking_array:
  "Tree_Diff U0 tree_1234 tree_12 =
     Inr \<lparr>Actions =
        [\<lparr>Action = EditDelete,
          Path = Some (InstanceID [NodeID ''m'' ''l'' False (Some [PosPredicate 2])]),
          Value = None\<rparr>,
         \<lparr>Action = EditDelete,
          Path = Some (InstanceID [NodeID ''m'' ''l'' False (Some [PosPredicate 3])]),
          Value = None\<rparr>]\<rparr>
 \<and> Tree_Edit U0 tree_1234
       \<lparr>Actions =
        [\<lparr>Action = EditDelete,
          Path = Some (InstanceID [NodeID ''m'' ''l'' False (Some [PosPredicate 2])]),
          Value = None\<rparr>,
         \<lparr>Action = EditDelete,
          Path = Some (InstanceID [NodeID ''m'' ''l'' False (Some [PosPredicate 3])]),
          Value = None\<rparr>]\<rparr> = Inr tree_124
 \<and> Tree_Equal tree_124 tree_12 = Inr False"
  by code_simp

end
